theory Spec2Isabelle
  imports Main "HOL-Library.Sublist"
begin

section \<open>Go values used by pkg/kubernetes/nodes.go and pkg/toolsets/core/nodes.go\<close>

text \<open>
  A Go \<open>error\<close> value. \<open>ErrorString\<close> is what \<open>errors.New\<close> and a
  \<open>fmt.Errorf\<close> without \<open>%w\<close> build; \<open>WrapError p e\<close> is
  \<open>fmt.Errorf(p + "%w", e)\<close> (every \<open>%w\<close> of the two files is the last verb of
  its format); \<open>UpgradeFailureError\<close> is apimachinery's \<open>httpstream.UpgradeFailureError\<close>
  with its cause. A nil error is \<open>None\<close> of \<open>go_error option\<close>.
\<close>

datatype go_error =
    ErrorString string
  | WrapError string go_error
  | UpgradeFailureError go_error

fun err_Error :: "go_error \<Rightarrow> string" where
  "err_Error (ErrorString s) = s"
| "err_Error (WrapError p e) = p @ err_Error e"
| "err_Error (UpgradeFailureError c) = ''unable to upgrade streaming request: '' @ err_Error c"

text \<open>\<open>errors.As(err, &upgradeErr)\<close>: walks the chain of wrapped errors.\<close>

fun errors_As_UpgradeFailure :: "go_error \<Rightarrow> bool" where
  "errors_As_UpgradeFailure (ErrorString s) = False"
| "errors_As_UpgradeFailure (WrapError p e) = errors_As_UpgradeFailure e"
| "errors_As_UpgradeFailure (UpgradeFailureError c) = True"

fun strings_Contains :: "string \<Rightarrow> string \<Rightarrow> bool" where
  "strings_Contains [] sub = (sub = [])"
| "strings_Contains (c # cs) sub = (prefix sub (c # cs) \<or> strings_Contains cs sub)"

text \<open>
  The two classifiers of \<open>k8s.io/apimachinery/pkg/util/httpstream\<close> that
  \<open>execInPod\<close> hands to the fallback executor. Both answer false on a nil error.
\<close>

definition IsUpgradeFailure :: "go_error option \<Rightarrow> bool" where
  "IsUpgradeFailure err = (case err of None \<Rightarrow> False | Some e \<Rightarrow> errors_As_UpgradeFailure e)"

definition IsHTTPSProxyError :: "go_error option \<Rightarrow> bool" where
  "IsHTTPSProxyError err =
     (case err of None \<Rightarrow> False
      | Some e \<Rightarrow> strings_Contains (err_Error e) ''proxy: unknown scheme: https'')"

text \<open>
  A \<open>context.Context\<close>, as far as the code distinguishes them: the caller's context
  (an opaque request), \<open>context.Background()\<close>, and \<open>context.WithTimeout\<close> of a
  parent with a duration in milliseconds.
\<close>

datatype go_context =
    Background
  | Request string
  | WithTimeout go_context nat

text \<open>A JSON argument of a tool call (\<open>map[string]any\<close>).\<close>

datatype json_value =
    JString string
  | JBool bool
  | JNumber int
  | JNull
  | JArray "json_value list"

text \<open>The type assertions \<open>v.(string)\<close> and \<open>v.(bool)\<close> on a map lookup: the zero
  value and \<open>ok = false\<close> when the key is absent or holds another type.\<close>

fun as_string :: "json_value option \<Rightarrow> string \<times> bool" where
  "as_string (Some (JString s)) = (s, True)"
| "as_string _ = ([], False)"

fun as_bool :: "json_value option \<Rightarrow> bool \<times> bool" where
  "as_bool (Some (JBool b)) = (b, True)"
| "as_bool _ = (False, False)"

section \<open>Go standard library: strings.ReplaceAll and path/filepath (Unix)\<close>

text \<open>\<open>strings.ReplaceAll(s, old, new)\<close> for a pattern \<open>old\<close> of one byte, which is
  the only use in \<open>nodeFilesPut\<close>.\<close>

fun strings_ReplaceAll :: "string \<Rightarrow> char \<Rightarrow> string \<Rightarrow> string" where
  "strings_ReplaceAll [] old new = []"
| "strings_ReplaceAll (c # cs) old new =
     (if c = old then new @ strings_ReplaceAll cs old new
      else c # strings_ReplaceAll cs old new)"

abbreviation slash :: char where "slash \<equiv> CHR ''/''"
abbreviation squote :: char where "squote \<equiv> CHR 0x27"
abbreviation backslash :: char where "backslash \<equiv> CHR 0x5C"
abbreviation newline :: char where "newline \<equiv> CHR 0x0A"

text \<open>Splitting a string at a separator byte (\<open>cur\<close> holds the current piece, last
  byte first), and joining path elements again.\<close>

fun split_on :: "char \<Rightarrow> string \<Rightarrow> string \<Rightarrow> string list" where
  "split_on sep [] cur = [rev cur]"
| "split_on sep (c # cs) cur =
     (if c = sep then rev cur # split_on sep cs [] else split_on sep cs (c # cur))"

fun join_sep :: "string list \<Rightarrow> string" where
  "join_sep [] = []"
| "join_sep [e] = e"
| "join_sep (e # es) = e @ slash # join_sep es"

text \<open>
  \<open>filepath.Clean\<close>: empty and \<open>.\<close> elements are dropped, an inner \<open>..\<close> removes
  the element before it, a \<open>..\<close> at the start of a rooted path is dropped and at the
  start of a relative one is kept. The stack \<open>acc\<close> holds the kept elements, last first.
\<close>

fun clean_elems :: "bool \<Rightarrow> string list \<Rightarrow> string list \<Rightarrow> string list" where
  "clean_elems rooted [] acc = rev acc"
| "clean_elems rooted (e # es) acc =
     (if e = [] \<or> e = ''.'' then clean_elems rooted es acc
      else if e = ''..'' then
        (case acc of
           [] \<Rightarrow> if rooted then clean_elems rooted es [] else clean_elems rooted es [''..'']
         | a # as \<Rightarrow>
             if a = ''..'' then clean_elems rooted es (''..'' # a # as)
             else clean_elems rooted es as)
      else clean_elems rooted es (e # acc))"

definition filepath_Clean :: "string \<Rightarrow> string" where
  "filepath_Clean path =
     (if path = [] then ''.''
      else
        let rooted = (hd path = slash);
            out = (if rooted then [slash] else []) @ join_sep (clean_elems rooted (split_on slash path []) [])
        in if out = [] then ''.'' else out)"

text \<open>\<open>filepath.Dir\<close>: everything up to and including the last separator, cleaned.\<close>

definition filepath_Dir :: "string \<Rightarrow> string" where
  "filepath_Dir path = filepath_Clean (rev (dropWhile (\<lambda>c. c \<noteq> slash) (rev path)))"

text \<open>\<open>filepath.Base\<close>: the last element, after trailing separators are removed;
  \<open>.\<close> for the empty path and a single separator for a path of separators only.\<close>

definition filepath_Base :: "string \<Rightarrow> string" where
  "filepath_Base path =
     (if path = [] then ''.''
      else
        let stripped = rev (dropWhile (\<lambda>c. c = slash) (rev path));
            last_elem = rev (takeWhile (\<lambda>c. c \<noteq> slash) (rev stripped))
        in if last_elem = [] then [slash] else last_elem)"

section \<open>The cluster, the sandbox and the local machine\<close>

text \<open>The pod manifest that \<open>NodesFiles\<close> submits, with the fields it sets.\<close>

datatype label_key = AppKubernetesName | AppKubernetesComponent | AppKubernetesManagedBy

datatype label_value = LabelString string | BinaryName

record volume_mount =
  vm_Name :: string
  vm_MountPath :: string

record container =
  c_Name :: string
  c_Image :: string
  c_Command :: "string list"
  c_Privileged :: "bool option"
  c_VolumeMounts :: "volume_mount list"

record volume =
  v_Name :: string
  v_HostPath :: "string option"

record pod =
  p_APIVersion :: string
  p_Kind :: string
  p_Name :: string
  p_Namespace :: string
  p_Labels :: "(label_key \<times> label_value) list"
  p_NodeName :: string
  p_RestartPolicy :: string
  p_Containers :: "container list"
  p_Volumes :: "volume list"

text \<open>What \<open>waitForPodReady\<close> reads of a pod: \<open>Status.Phase\<close> and
  \<open>Status.Conditions\<close>. The types are strings in the API; \<open>v1.PodRunning\<close> is
  \<open>Running\<close>, \<open>v1.PodFailed\<close> is \<open>Failed\<close>, \<open>v1.PodReady\<close> is \<open>Ready\<close>
  and \<open>v1.ConditionTrue\<close> is \<open>True\<close>.\<close>

record pod_condition =
  cond_Type :: string
  cond_Status :: string

record pod_status =
  st_Phase :: string
  st_Conditions :: "pod_condition list"

abbreviation PodRunning :: string where "PodRunning \<equiv> ''Running''"
abbreviation PodFailed :: string where "PodFailed \<equiv> ''Failed''"
abbreviation PodReady :: string where "PodReady \<equiv> ''Ready''"
abbreviation ConditionTrue :: string where "ConditionTrue \<equiv> ''True''"

datatype transport = WebSocket | SPDY

text \<open>
  Every request the code sends to the cluster and every access to the local file system,
  in the order issued. A pods request carries the context it was given and the namespace
  of the client it was sent through; a delete also carries the answer of the API server.
\<close>

datatype event =
    PodsCreate go_context string pod
  | PodsGet go_context string string
  | PodsDelete go_context string string "go_error option"
  | ExecStream transport go_context string string "string list"
  | OsReadFile string
  | OsMkdirAll string
  | OsWriteFile string string

text \<open>A file system as a map from a path to the content of the file there.\<close>

type_synonym files = "string \<rightharpoonup> string"

text \<open>
  What one attempt to stream a command through a transport did: the bytes it wrote to
  the stdout and stderr writers, the error \<open>StreamWithContext\<close> returned, and the
  files of the sandbox afterwards.
\<close>

record attempt =
  a_stdout :: string
  a_stderr :: string
  a_err :: "go_error option"
  a_fs :: files

text \<open>
  The world outside the two files: what the API server, the transports, the random
  generator, the clock and the local file system answer. \<open>pods_get\<close>,
  \<open>get_latency\<close> and \<open>sleep_overrun\<close> are indexed by the number of the poll,
  \<open>ws_stream\<close> and \<open>spdy_stream\<close> by the number of the exec call. Times are in
  milliseconds.
\<close>

record env =
  pods_client :: "string \<Rightarrow> go_error option"
  pods_create :: "go_context \<Rightarrow> pod \<Rightarrow> go_error option"
  pods_get :: "nat \<Rightarrow> go_context \<Rightarrow> string \<Rightarrow> string \<Rightarrow> go_error + pod_status"
  pods_delete :: "go_context \<Rightarrow> string \<Rightarrow> string \<Rightarrow> go_error option"
  get_latency :: "nat \<Rightarrow> nat"
  sleep_overrun :: "nat \<Rightarrow> nat"
  rand_String :: "nat \<Rightarrow> string"
  NewSPDYExecutor_err :: "go_error option"
  NewWebSocketExecutor_err :: "go_error option"
  NewFallbackExecutor_err :: "go_error option"
  ws_stream :: "nat \<Rightarrow> string list \<Rightarrow> files \<Rightarrow> attempt"
  spdy_stream :: "nat \<Rightarrow> string list \<Rightarrow> files \<Rightarrow> attempt"
  os_ReadFile_err :: "string \<Rightarrow> go_error"
  os_MkdirAll_err :: "string \<Rightarrow> go_error option"
  os_WriteFile_err :: "string \<Rightarrow> go_error option"

text \<open>The state the calls change: the requests issued so far, the local clock, the
  counters of polls and exec calls, the files seen from inside the sandbox and the
  local files.\<close>

record world =
  trace :: "event list"
  clock :: nat
  polls :: nat
  execs :: nat
  pod_fs :: files
  local_fs :: files

definition emit :: "event \<Rightarrow> world \<Rightarrow> world" where
  "emit e w = w\<lparr>trace := trace w @ [e]\<rparr>"

section \<open>execInPod\<close>

text \<open>The predicate \<open>execInPod\<close> passes to \<open>remotecommand.NewFallbackExecutor\<close>.\<close>

definition shouldFallback :: "go_error option \<Rightarrow> bool" where
  "shouldFallback err = (IsUpgradeFailure err \<or> IsHTTPSProxyError err)"

text \<open>One attempt through a transport: the request is recorded and the sandbox's files
  are what the attempt left.\<close>

definition stream_attempt ::
  "env \<Rightarrow> transport \<Rightarrow> go_context \<Rightarrow> string \<Rightarrow> string \<Rightarrow> string list \<Rightarrow> world \<Rightarrow> attempt \<times> world" where
  "stream_attempt E t ctx namespace podName command w =
     (let a = (case t of WebSocket \<Rightarrow> ws_stream E | SPDY \<Rightarrow> spdy_stream E)
                (execs w) command (pod_fs w)
      in (a, (emit (ExecStream t ctx namespace podName command) w)\<lparr>pod_fs := a_fs a\<rparr>))"

text \<open>
  \<open>StreamWithContext\<close> of client-go's fallback executor, built by \<open>execInPod\<close> with the
  WebSocket executor as primary and the SPDY executor as secondary: the primary streams;
  when the predicate accepts its error the secondary streams, into the same two writers,
  and its error is the result; otherwise the primary's error is the result.
  The value is the error and the contents of the stdout and stderr builders.
\<close>

definition FallbackExecutor_StreamWithContext ::
  "env \<Rightarrow> go_context \<Rightarrow> string \<Rightarrow> string \<Rightarrow> string list \<Rightarrow> world
     \<Rightarrow> (go_error option \<times> string \<times> string) \<times> world" where
  "FallbackExecutor_StreamWithContext E ctx namespace podName command w =
     (case stream_attempt E WebSocket ctx namespace podName command w of
        (a1, w1) \<Rightarrow>
          if shouldFallback (a_err a1) then
            (case stream_attempt E SPDY ctx namespace podName command w1 of
               (a2, w2) \<Rightarrow>
                 ((a_err a2, a_stdout a1 @ a_stdout a2, a_stderr a1 @ a_stderr a2), w2))
          else ((a_err a1, a_stdout a1, a_stderr a1), w1))"

definition execInPod ::
  "env \<Rightarrow> go_context \<Rightarrow> string \<Rightarrow> string \<Rightarrow> string list \<Rightarrow> world \<Rightarrow> (go_error + string) \<times> world" where
  "execInPod E ctx namespace podName command w =
     (case NewSPDYExecutor_err E of
        Some err \<Rightarrow> (Inl err, w)
      | None \<Rightarrow>
     (case NewWebSocketExecutor_err E of
        Some err \<Rightarrow> (Inl err, w)
      | None \<Rightarrow>
     (case NewFallbackExecutor_err E of
        Some err \<Rightarrow> (Inl err, w)
      | None \<Rightarrow>
     (case FallbackExecutor_StreamWithContext E ctx namespace podName command w of
        ((serr, stdout, stderr), w') \<Rightarrow>
          let w'' = w'\<lparr>execs := Suc (execs w')\<rparr> in
          (case serr of
             Some err \<Rightarrow>
               if length stderr > 0
               then (Inl (WrapError (''exec error: '' @ stderr @ '': '') err), w'')
               else (Inl err, w'')
           | None \<Rightarrow>
               if length stderr > 0 \<and> length stdout = 0 then (Inr stderr, w'')
               else (Inr stdout, w''))))))"

section \<open>waitForPodReady\<close>

text \<open>The loop over \<open>pod.Status.Conditions\<close>.\<close>

fun has_ready_condition :: "pod_condition list \<Rightarrow> bool" where
  "has_ready_condition [] = False"
| "has_ready_condition (c # cs) =
     (if cond_Type c = PodReady \<and> cond_Status c = ConditionTrue then True
      else has_ready_condition cs)"

text \<open>
  The \<open>for\<close> loop of \<open>waitForPodReady\<close>. \<open>time.Now()\<close> reads \<open>clock\<close>; a get
  is recorded, takes \<open>get_latency\<close> and is the next poll;
  \<open>time.Sleep(2 * time.Second)\<close> takes 2000 ms and \<open>sleep_overrun\<close> more. Each
  round moves the clock forward by at least the sleep, which is why the loop ends.
\<close>

definition pods_Get_done :: "env \<Rightarrow> go_context \<Rightarrow> string \<Rightarrow> string \<Rightarrow> world \<Rightarrow> world" where
  "pods_Get_done E ctx namespace podName w =
     (emit (PodsGet ctx namespace podName) w)
       \<lparr>clock := clock w + get_latency E (polls w), polls := Suc (polls w)\<rparr>"

definition time_Sleep :: "env \<Rightarrow> nat \<Rightarrow> nat \<Rightarrow> world \<Rightarrow> world" where
  "time_Sleep E k ms w = w\<lparr>clock := clock w + ms + sleep_overrun E k\<rparr>"

function poll_loop ::
  "env \<Rightarrow> go_context \<Rightarrow> string \<Rightarrow> string \<Rightarrow> nat \<Rightarrow> world \<Rightarrow> go_error option \<times> world" where
  "poll_loop E ctx namespace podName deadline w =
     (if clock w > deadline
      then (Some (ErrorString ''timeout waiting for pod to be ready''), w)
      else
        (case pods_get E (polls w) ctx namespace podName of
           Inl err \<Rightarrow> (Some err, pods_Get_done E ctx namespace podName w)
         | Inr st \<Rightarrow>
             if st_Phase st = PodRunning \<and> has_ready_condition (st_Conditions st)
             then (None, pods_Get_done E ctx namespace podName w)
             else if st_Phase st = PodFailed
             then (Some (ErrorString ''pod failed''), pods_Get_done E ctx namespace podName w)
             else poll_loop E ctx namespace podName deadline
                    (time_Sleep E (polls w) 2000 (pods_Get_done E ctx namespace podName w))))"
  by pat_completeness auto
termination
  by (relation "measure (\<lambda>(E, ctx, namespace, podName, deadline, w). Suc deadline - clock w)")
     (auto simp: emit_def pods_Get_done_def time_Sleep_def)

declare poll_loop.simps [simp del]

definition waitForPodReady ::
  "env \<Rightarrow> go_context \<Rightarrow> string \<Rightarrow> string \<Rightarrow> nat \<Rightarrow> world \<Rightarrow> go_error option \<times> world" where
  "waitForPodReady E ctx namespace podName timeout w =
     (case pods_client E namespace of
        Some err \<Rightarrow> (Some err, w)
      | None \<Rightarrow> poll_loop E ctx namespace podName (clock w + timeout) w)"

section \<open>The three file operations\<close>

text \<open>The command vector \<open>[]string{"/bin/sh", "-c", script}\<close>.\<close>

definition sh_c :: "string \<Rightarrow> string list" where
  "sh_c script = [''/bin/sh'', ''-c'', script]"

text \<open>The script of the write command:
  \<open>fmt.Sprintf("cat > /host%s << 'EOF'\n%s\nEOF", destPath, escapedContent)\<close>.\<close>

definition write_script :: "string \<Rightarrow> string \<Rightarrow> string" where
  "write_script destPath escapedContent =
     ''cat > /host'' @ destPath @ '' << '' @ [squote] @ ''EOF'' @ [squote, newline]
       @ escapedContent @ [newline] @ ''EOF''"

text \<open>\<open>strings.ReplaceAll(string(content), "'", "'\\''")\<close>: every single quote
  becomes the four bytes quote, backslash, quote, quote.\<close>

definition escapeContent :: "string \<Rightarrow> string" where
  "escapeContent content = strings_ReplaceAll content squote [squote, backslash, squote, squote]"

definition nodeFilesPut ::
  "env \<Rightarrow> go_context \<Rightarrow> string \<Rightarrow> string \<Rightarrow> string \<Rightarrow> string \<Rightarrow> world \<Rightarrow> (go_error + string) \<times> world" where
  "nodeFilesPut E ctx namespace podName sourcePath destPath w =
     (let w0 = emit (OsReadFile sourcePath) w in
      case local_fs w sourcePath of
        None \<Rightarrow> (Inl (WrapError ''failed to read source file: '' (os_ReadFile_err E sourcePath)), w0)
      | Some content \<Rightarrow>
          let destDir = filepath_Dir destPath;
              made =
                (if destDir \<noteq> ''.'' \<and> destDir \<noteq> ''/''
                 then execInPod E ctx namespace podName (sh_c (''mkdir -p /host'' @ destDir)) w0
                 else (Inr [], w0))
          in
          (case made of
             (Inl err, w1) \<Rightarrow> (Inl (WrapError ''failed to create destination directory: '' err), w1)
           | (Inr _, w1) \<Rightarrow>
               (case execInPod E ctx namespace podName
                       (sh_c (write_script destPath (escapeContent content))) w1 of
                  (Inl err, w2) \<Rightarrow> (Inl (WrapError ''failed to write file to node: '' err), w2)
                | (Inr _, w2) \<Rightarrow>
                    (Inr (''File successfully copied from '' @ sourcePath @ '' to node:'' @ destPath),
                     w2))))"

definition nodeFilesGet ::
  "env \<Rightarrow> go_context \<Rightarrow> string \<Rightarrow> string \<Rightarrow> string \<Rightarrow> string \<Rightarrow> world \<Rightarrow> (go_error + string) \<times> world" where
  "nodeFilesGet E ctx namespace podName sourcePath destPath0 w =
     (case execInPod E ctx namespace podName (sh_c (''cat /host'' @ sourcePath)) w of
        (Inl err, w1) \<Rightarrow> (Inl (WrapError ''failed to read file from node: '' err), w1)
      | (Inr content, w1) \<Rightarrow>
          let destPath = (if destPath0 = [] then filepath_Base sourcePath else destPath0);
              destDir = filepath_Dir destPath;
              made =
                (if destDir \<noteq> ''.'' \<and> destDir \<noteq> []
                 then (os_MkdirAll_err E destDir, emit (OsMkdirAll destDir) w1)
                 else (None, w1))
          in
          (case made of
             (Some err, w2) \<Rightarrow> (Inl (WrapError ''failed to create local directory: '' err), w2)
           | (None, w2) \<Rightarrow>
               (case os_WriteFile_err E destPath of
                  Some err \<Rightarrow>
                    (Inl (WrapError ''failed to write local file: '' err),
                     emit (OsWriteFile destPath content) w2)
                | None \<Rightarrow>
                    (Inr (''File successfully copied from node:'' @ sourcePath @ '' to '' @ destPath),
                     (emit (OsWriteFile destPath content) w2)
                       \<lparr>local_fs := (local_fs w2)(destPath \<mapsto> content)\<rparr>))))"

definition nodeFilesList ::
  "env \<Rightarrow> go_context \<Rightarrow> string \<Rightarrow> string \<Rightarrow> string \<Rightarrow> world \<Rightarrow> (go_error + string) \<times> world" where
  "nodeFilesList E ctx namespace podName path w =
     (case execInPod E ctx namespace podName (sh_c (''ls -la /host'' @ path)) w of
        (Inl err, w1) \<Rightarrow> (Inl (WrapError ''failed to list directory: '' err), w1)
      | (Inr output, w1) \<Rightarrow> (Inr output, w1))"

section \<open>NodesFiles\<close>

record NodeFilesOptions =
  NodeName :: string
  Operation :: string
  SourcePath :: string
  DestPath :: string
  Namespace :: string
  Image :: string
  Privileged :: bool

text \<open>The two defaults at the head of \<open>NodesFiles\<close>.\<close>

definition set_defaults :: "NodeFilesOptions \<Rightarrow> NodeFilesOptions" where
  "set_defaults opts =
     (let opts1 = (if Namespace opts = [] then opts\<lparr>Namespace := ''default''\<rparr> else opts)
      in if Image opts1 = [] then opts1\<lparr>Image := ''busybox''\<rparr> else opts1)"

text \<open>The pod literal, from options that have their defaults.\<close>

definition sandbox_pod :: "NodeFilesOptions \<Rightarrow> string \<Rightarrow> pod" where
  "sandbox_pod opts podName =
     \<lparr>p_APIVersion = ''v1'', p_Kind = ''Pod'',
      p_Name = podName,
      p_Namespace = Namespace opts,
      p_Labels = [(AppKubernetesName, LabelString podName),
                  (AppKubernetesComponent, LabelString ''node-files''),
                  (AppKubernetesManagedBy, BinaryName)],
      p_NodeName = NodeName opts,
      p_RestartPolicy = ''Never'',
      p_Containers =
        [\<lparr>c_Name = ''node-files'',
          c_Image = Image opts,
          c_Command = [''/bin/sh'', ''-c'', ''sleep 3600''],
          c_Privileged = Some (Privileged opts),
          c_VolumeMounts = [\<lparr>vm_Name = ''node-root'', vm_MountPath = ''/host''\<rparr>]\<rparr>],
      p_Volumes = [\<lparr>v_Name = ''node-root'', v_HostPath = Some ''/''\<rparr>]\<rparr>"

text \<open>The deferred function: a delete under \<open>context.WithTimeout(context.Background(),
  30*time.Second)\<close>, whose error is assigned to the blank identifier.\<close>

definition deferred_delete :: "env \<Rightarrow> string \<Rightarrow> string \<Rightarrow> world \<Rightarrow> world" where
  "deferred_delete E namespace podName w =
     (let deleteCtx = WithTimeout Background 30000
      in emit (PodsDelete deleteCtx namespace podName (pods_delete E deleteCtx namespace podName)) w)"

text \<open>What \<open>NodesFiles\<close> runs after the \<open>defer\<close> statement: the wait for readiness
  (two minutes) and the \<open>switch\<close> on the operation.\<close>

definition NodesFiles_body ::
  "env \<Rightarrow> go_context \<Rightarrow> NodeFilesOptions \<Rightarrow> string \<Rightarrow> world \<Rightarrow> (go_error + string) \<times> world" where
  "NodesFiles_body E ctx opts podName w =
     (case waitForPodReady E ctx (Namespace opts) podName 120000 w of
        (Some err, w1) \<Rightarrow> (Inl (WrapError ''pod failed to become ready: '' err), w1)
      | (None, w1) \<Rightarrow>
          if Operation opts = ''put''
          then nodeFilesPut E ctx (Namespace opts) podName (SourcePath opts) (DestPath opts) w1
          else if Operation opts = ''get''
          then nodeFilesGet E ctx (Namespace opts) podName (SourcePath opts) (DestPath opts) w1
          else if Operation opts = ''list''
          then nodeFilesList E ctx (Namespace opts) podName (SourcePath opts) w1
          else (Inl (ErrorString (''unknown operation: '' @ Operation opts)), w1))"

text \<open>\<open>NodesFiles\<close>. The deferred delete runs when the function returns, on every
  return that follows the \<open>defer\<close> statement, so it is applied to the world the body
  leaves.\<close>

definition NodesFiles ::
  "env \<Rightarrow> go_context \<Rightarrow> NodeFilesOptions \<Rightarrow> world \<Rightarrow> (go_error + string) \<times> world" where
  "NodesFiles E ctx opts0 w =
     (let opts = set_defaults opts0;
          podName = ''node-files-'' @ rand_String E 5;
          pod = sandbox_pod opts podName
      in
      case pods_client E (Namespace opts) of
        Some err \<Rightarrow> (Inl (WrapError ''failed to get pods client: '' err), w)
      | None \<Rightarrow>
          (case pods_create E ctx pod of
             Some err \<Rightarrow>
               (Inl (WrapError ''failed to create pod: '' err),
                emit (PodsCreate ctx (Namespace opts) pod) w)
           | None \<Rightarrow>
               (case NodesFiles_body E ctx opts podName (emit (PodsCreate ctx (Namespace opts) pod) w) of
                  (r, w') \<Rightarrow> (r, deferred_delete E (Namespace opts) podName w'))))"

section \<open>The node_files tool handler\<close>

text \<open>Modelled from the spec: \<open>api.ToolCallResult\<close> and \<open>api.NewToolCallResult\<close> of
  pkg/api, which is not among the sources: the result of a tool call holds the text of
  a success or the error of a failure.\<close>

record ToolCallResult =
  tcr_Content :: string
  tcr_Error :: "go_error option"

definition NewToolCallResult :: "string \<Rightarrow> go_error option \<Rightarrow> ToolCallResult option" where
  "NewToolCallResult content err = Some \<lparr>tcr_Content = content, tcr_Error = err\<rparr>"

text \<open>\<open>nodeFiles\<close>: the pair of the returned pointer (\<open>None\<close> for nil) and the
  returned error.\<close>

definition nodeFiles ::
  "env \<Rightarrow> go_context \<Rightarrow> (string \<rightharpoonup> json_value) \<Rightarrow> world
     \<Rightarrow> (ToolCallResult option \<times> go_error option) \<times> world" where
  "nodeFiles E ctx args w =
     (case as_string (args ''node_name'') of (nodeName, ok1) \<Rightarrow>
      if \<not> ok1 \<or> nodeName = []
      then ((NewToolCallResult [] (Some (ErrorString ''missing required argument: node_name'')), None), w)
      else
     (case as_string (args ''operation'') of (operation, ok2) \<Rightarrow>
      if \<not> ok2 \<or> operation = []
      then ((NewToolCallResult [] (Some (ErrorString ''missing required argument: operation'')), None), w)
      else
     (case as_string (args ''source_path'') of (sourcePath, ok3) \<Rightarrow>
      if \<not> ok3 \<or> sourcePath = []
      then ((NewToolCallResult [] (Some (ErrorString ''missing required argument: source_path'')), None), w)
      else
        let destPath = fst (as_string (args ''dest_path''));
            namespace0 = fst (as_string (args ''namespace''));
            namespace = (if namespace0 = [] then ''default'' else namespace0);
            image0 = fst (as_string (args ''image''));
            image = (if image0 = [] then ''busybox'' else image0);
            privileged = (case as_bool (args ''privileged'') of (privArg, ok) \<Rightarrow>
                            if ok then privArg else True);
            opts = \<lparr>NodeName = nodeName, Operation = operation, SourcePath = sourcePath,
                    DestPath = destPath, Namespace = namespace, Image = image,
                    Privileged = privileged\<rparr>
        in
        (case NodesFiles E ctx opts w of
           (Inl err, w') \<Rightarrow>
             ((NewToolCallResult []
                 (Some (ErrorString (''failed to perform node file operation: '' @ err_Error err))),
               None), w')
         | (Inr ret, w') \<Rightarrow> ((NewToolCallResult ret None, None), w')))))"

section \<open>Reading the outcome of a call\<close>

text \<open>The events a call added to the trace.\<close>

definition issued :: "world \<Rightarrow> world \<Rightarrow> event list" where
  "issued w w' = drop (length (trace w)) (trace w')"

fun is_delete :: "event \<Rightarrow> bool" where
  "is_delete (PodsDelete ctx namespace name answer) = True"
| "is_delete _ = False"

fun is_create :: "event \<Rightarrow> bool" where
  "is_create (PodsCreate ctx namespace p) = True"
| "is_create _ = False"

fun is_exec :: "event \<Rightarrow> bool" where
  "is_exec (ExecStream t ctx namespace name command) = True"
| "is_exec _ = False"

text \<open>
  What one poll of \<open>waitForPodReady\<close> saw, said without the code's loop over the
  conditions: the pod is ready when its phase is \<open>Running\<close> and one of its conditions
  has type \<open>Ready\<close> and status \<open>True\<close>; it has failed when its phase is \<open>Failed\<close>;
  it is pending when the get answered and the pod is neither.
\<close>

definition observed_ready :: "go_error + pod_status \<Rightarrow> bool" where
  "observed_ready r =
     (case r of Inl err \<Rightarrow> False
      | Inr st \<Rightarrow>
          st_Phase st = ''Running''
          \<and> (\<exists>c \<in> set (st_Conditions st). cond_Type c = ''Ready'' \<and> cond_Status c = ''True''))"

definition observed_failed :: "go_error + pod_status \<Rightarrow> bool" where
  "observed_failed r =
     (case r of Inl err \<Rightarrow> False
      | Inr st \<Rightarrow> st_Phase st = ''Failed'')"

definition observed_pending :: "go_error + pod_status \<Rightarrow> bool" where
  "observed_pending r =
     (case r of Inl err \<Rightarrow> False
      | Inr st \<Rightarrow>
          \<not> (st_Phase st = ''Running''
              \<and> (\<exists>c \<in> set (st_Conditions st). cond_Type c = ''Ready'' \<and> cond_Status c = ''True''))
          \<and> st_Phase st \<noteq> ''Failed'')"


section \<open>A sandbox whose shell is POSIX sh\<close>

text \<open>
  The round trip of a file depends on what the shell of the sandbox does with the
  scripts of \<open>nodeFilesPut\<close> and \<open>nodeFilesGet\<close>. This is the behaviour of a POSIX
  shell on the three shapes of script they send, over a transport that does not fail:
  \<^item> \<open>mkdir -p P\<close> succeeds silently;
  \<^item> \<open>cat > P << 'EOF'\<close>, a here-document with a quoted delimiter: the lines that
    follow, up to the first line that is exactly \<open>EOF\<close>, are written to \<open>P\<close> as they
    are (nothing in them is expanded and no quote is removed), each ended by a newline;
  \<^item> \<open>cat P\<close> prints the file, or fails when there is none.
  A path is read only when it is made of letters, digits and \<open>/ . _ -\<close>, which the
  shell leaves alone; directories are not modelled, so every such path can hold a file.
  Any other script is answered by an error.
\<close>

definition plain_char :: "char \<Rightarrow> bool" where
  "plain_char c =
     (let n = of_char c :: nat in
      (97 \<le> n \<and> n \<le> 122) \<or> (65 \<le> n \<and> n \<le> 90) \<or> (48 \<le> n \<and> n \<le> 57)
      \<or> c = slash \<or> c = CHR ''.'' \<or> c = CHR ''_'' \<or> c = CHR ''-'')"

definition plain_path :: "string \<Rightarrow> bool" where
  "plain_path p = (p \<noteq> [] \<and> list_all plain_char p)"

definition sh_ok :: "string \<Rightarrow> files \<Rightarrow> attempt" where
  "sh_ok out fs = \<lparr>a_stdout = out, a_stderr = [], a_err = None, a_fs = fs\<rparr>"

definition sh_fail :: "string \<Rightarrow> files \<Rightarrow> attempt" where
  "sh_fail msg fs =
     \<lparr>a_stdout = [], a_stderr = msg,
      a_err = Some (ErrorString ''command terminated with exit code 1''), a_fs = fs\<rparr>"

definition heredoc_intro :: string where
  "heredoc_intro = '' << '' @ [squote] @ ''EOF'' @ [squote, newline]"

definition sh_write :: "string \<Rightarrow> files \<Rightarrow> attempt" where
  "sh_write rest fs =
     (let path = takeWhile (\<lambda>c. c \<noteq> CHR '' '') rest;
          rest2 = drop (length path) rest
      in
      if plain_path path \<and> prefix heredoc_intro rest2 then
        let ls = split_on newline (drop (length heredoc_intro) rest2) [];
            doc = takeWhile (\<lambda>l. l \<noteq> ''EOF'') ls
        in
        if drop (length doc) ls = [''EOF'']
        then sh_ok [] (fs(path \<mapsto> concat (map (\<lambda>l. l @ [newline]) doc)))
        else sh_fail ''sh: unsupported script'' fs
      else sh_fail ''sh: unsupported script'' fs)"

definition sh_read :: "string \<Rightarrow> files \<Rightarrow> attempt" where
  "sh_read path fs =
     (if plain_path path then
        (case fs path of
           Some content \<Rightarrow> sh_ok content fs
         | None \<Rightarrow> sh_fail (''cat: '' @ path @ '': No such file or directory'') fs)
      else sh_fail ''sh: unsupported script'' fs)"

definition sh_script :: "string \<Rightarrow> files \<Rightarrow> attempt" where
  "sh_script script fs =
     (if prefix ''mkdir -p '' script then
        (if plain_path (drop 9 script) then sh_ok [] fs else sh_fail ''sh: unsupported script'' fs)
      else if prefix ''cat > '' script then sh_write (drop 6 script) fs
      else if prefix ''cat '' script then sh_read (drop 4 script) fs
      else sh_fail ''sh: unsupported script'' fs)"

definition sh_stream :: "nat \<Rightarrow> string list \<Rightarrow> files \<Rightarrow> attempt" where
  "sh_stream i command fs =
     (case command of
        [prog, flag, script] \<Rightarrow>
          if prog = ''/bin/sh'' \<and> flag = ''-c'' then sh_script script fs
          else sh_fail ''sh: unsupported script'' fs
      | _ \<Rightarrow> sh_fail ''sh: unsupported script'' fs)"

section \<open>Concrete worlds\<close>

text \<open>A cluster that answers every request, reports the pod ready at the first poll,
  and whose sandbox runs the shell above over the WebSocket transport.\<close>

definition ready_status :: pod_status where
  "ready_status =
     \<lparr>st_Phase = ''Running'',
      st_Conditions = [\<lparr>cond_Type = ''PodScheduled'', cond_Status = ''True''\<rparr>,
                       \<lparr>cond_Type = ''Ready'', cond_Status = ''True''\<rparr>]\<rparr>"


definition pending_status :: pod_status where
  "pending_status = \<lparr>st_Phase = ''Pending'', st_Conditions = []\<rparr>"

definition failed_status :: pod_status where
  "failed_status = \<lparr>st_Phase = ''Failed'', st_Conditions = []\<rparr>"

definition E0 :: env where
  "E0 =
     \<lparr>pods_client = (\<lambda>namespace. None),
      pods_create = (\<lambda>ctx p. None),
      pods_get = (\<lambda>k ctx namespace name. Inr ready_status),
      pods_delete = (\<lambda>ctx namespace name. None),
      get_latency = (\<lambda>k. 5),
      sleep_overrun = (\<lambda>k. 0),
      rand_String = (\<lambda>n. ''x7k2p''),
      NewSPDYExecutor_err = None,
      NewWebSocketExecutor_err = None,
      NewFallbackExecutor_err = None,
      ws_stream = sh_stream,
      spdy_stream = sh_stream,
      os_ReadFile_err = (\<lambda>path. ErrorString (''open '' @ path @ '': no such file or directory'')),
      os_MkdirAll_err = (\<lambda>path. None),
      os_WriteFile_err = (\<lambda>path. None)\<rparr>"

definition w0 :: world where
  "w0 = \<lparr>trace = [], clock = 0, polls = 0, execs = 0, pod_fs = Map.empty,
         local_fs = [''/tmp/local-file'' \<mapsto> ''hello'' @ [newline] @ ''world'']\<rparr>"

definition ctx0 :: go_context where
  "ctx0 = Request ''tools/call''"

text \<open>A proxy between the client and the API server that refuses the WebSocket
  upgrade, and a command that prints a warning on stderr and nothing on stdout.\<close>

definition upgrade_refused :: "nat \<Rightarrow> string list \<Rightarrow> files \<Rightarrow> attempt" where
  "upgrade_refused i command fs =
     \<lparr>a_stdout = [], a_stderr = [],
      a_err = Some (UpgradeFailureError (ErrorString ''websocket: bad handshake'')), a_fs = fs\<rparr>"

definition E_upgrade :: env where
  "E_upgrade = E0\<lparr>ws_stream := upgrade_refused\<rparr>"

definition warns_only :: "nat \<Rightarrow> string list \<Rightarrow> files \<Rightarrow> attempt" where
  "warns_only i command fs =
     \<lparr>a_stdout = [], a_stderr = ''ls: /host/lost+found: Permission denied'', a_err = None, a_fs = fs\<rparr>"

definition E_warns :: env where
  "E_warns = E0\<lparr>ws_stream := warns_only\<rparr>"



text \<open>An API server that cannot be reached through either transport.\<close>

definition conn_refused :: "nat \<Rightarrow> string list \<Rightarrow> files \<Rightarrow> attempt" where
  "conn_refused i command fs =
     \<lparr>a_stdout = [], a_stderr = [],
      a_err = Some (ErrorString ''dial tcp 10.0.0.1:6443: connect: connection refused''), a_fs = fs\<rparr>"

definition E_refused :: env where
  "E_refused = E0\<lparr>ws_stream := conn_refused\<rparr>"

text \<open>The first of the three executor constructors of \<open>execInPod\<close> that fails, in the
  order the code calls them.\<close>

definition constructor_error :: "env \<Rightarrow> go_error option" where
  "constructor_error E =
     (case NewSPDYExecutor_err E of
        Some err \<Rightarrow> Some err
      | None \<Rightarrow>
          (case NewWebSocketExecutor_err E of
             Some err \<Rightarrow> Some err
           | None \<Rightarrow> NewFallbackExecutor_err E))"

section \<open>What a call of NodesFiles issues\<close>

text \<open>A call extends the trace by events that all satisfy \<open>P\<close>.\<close>

definition only :: "(event \<Rightarrow> bool) \<Rightarrow> world \<Rightarrow> world \<Rightarrow> bool" where
  "only P w w' = (\<exists>evs. trace w' = trace w @ evs \<and> list_all P evs)"

fun is_get :: "event \<Rightarrow> bool" where
  "is_get (PodsGet ctx namespace name) = True"
| "is_get _ = False"

fun is_os :: "event \<Rightarrow> bool" where
  "is_os (OsReadFile path) = True"
| "is_os (OsMkdirAll path) = True"
| "is_os (OsWriteFile path content) = True"
| "is_os _ = False"

text \<open>The name \<open>NodesFiles\<close> gives the sandbox pod, and what it means that the pod was
  created: the pods client was obtained and the create request was accepted.\<close>

definition sandbox_name :: "env \<Rightarrow> string" where
  "sandbox_name E = ''node-files-'' @ rand_String E 5"

definition creation_succeeds :: "env \<Rightarrow> go_context \<Rightarrow> NodeFilesOptions \<Rightarrow> bool" where
  "creation_succeeds E ctx opts =
     (pods_client E (Namespace (set_defaults opts)) = None
      \<and> pods_create E ctx (sandbox_pod (set_defaults opts) (sandbox_name E)) = None)"

text \<open>Requests and worlds for the runs below: a get of \<open>/proc/meminfo\<close> with every
  optional field unset, the same with an operation that does not exist, a node that
  has the file, a pod that fails, and a caller whose context is already canceled while
  the API server also refuses the delete.\<close>

definition opts_get :: NodeFilesOptions where
  "opts_get = \<lparr>NodeName = ''worker-1'', Operation = ''get'', SourcePath = ''/proc/meminfo'',
               DestPath = [], Namespace = [], Image = [], Privileged = True\<rparr>"

definition opts_invalid :: NodeFilesOptions where
  "opts_invalid = opts_get\<lparr>Operation := ''invalid''\<rparr>"

definition w_node :: world where
  "w_node = w0\<lparr>pod_fs := [''/host/proc/meminfo'' \<mapsto> ''MemTotal: 16384 kB'' @ [newline]]\<rparr>"

definition never_ready :: "nat \<Rightarrow> go_context \<Rightarrow> string \<Rightarrow> string \<Rightarrow> go_error + pod_status" where
  "never_ready k ctx namespace name = Inr failed_status"

definition E_failed :: env where
  "E_failed = E0\<lparr>pods_get := never_ready\<rparr>"

definition canceled :: "nat \<Rightarrow> go_context \<Rightarrow> string \<Rightarrow> string \<Rightarrow> go_error + pod_status" where
  "canceled k ctx namespace name = Inl (ErrorString ''context canceled'')"

definition forbidden :: "go_context \<Rightarrow> string \<Rightarrow> string \<Rightarrow> go_error option" where
  "forbidden ctx namespace name = Some (ErrorString ''pods is forbidden'')"

definition E_canceled :: env where
  "E_canceled = E0\<lparr>pods_get := canceled, pods_delete := forbidden\<rparr>"

section \<open>What the node_files handler is asked\<close>

text \<open>
  The arguments of a tool call, read without the handler's code: the string under a key
  (empty when the key is absent or holds something that is not a string), the same with
  a default for the empty string, and the boolean under a key with a default for
  anything that is not a boolean.
\<close>

definition arg_string :: "(string \<rightharpoonup> json_value) \<Rightarrow> string \<Rightarrow> string" where
  "arg_string args k = (case args k of Some (JString s) \<Rightarrow> s | _ \<Rightarrow> [])"

definition arg_string_or :: "(string \<rightharpoonup> json_value) \<Rightarrow> string \<Rightarrow> string \<Rightarrow> string" where
  "arg_string_or args k d = (if arg_string args k = [] then d else arg_string args k)"

definition arg_bool_or :: "(string \<rightharpoonup> json_value) \<Rightarrow> string \<Rightarrow> bool \<Rightarrow> bool" where
  "arg_bool_or args k d = (case args k of Some (JBool b) \<Rightarrow> b | _ \<Rightarrow> d)"

text \<open>A required argument is missing when it is absent, not a string, or the empty
  string.\<close>

definition missing_argument :: "(string \<rightharpoonup> json_value) \<Rightarrow> string option" where
  "missing_argument args =
     (if arg_string args ''node_name'' = [] then Some ''node_name''
      else if arg_string args ''operation'' = [] then Some ''operation''
      else if arg_string args ''source_path'' = [] then Some ''source_path''
      else None)"

text \<open>The options a call asks for, with the documented defaults.\<close>

definition requested_options :: "(string \<rightharpoonup> json_value) \<Rightarrow> NodeFilesOptions" where
  "requested_options args =
     \<lparr>NodeName = arg_string args ''node_name'',
      Operation = arg_string args ''operation'',
      SourcePath = arg_string args ''source_path'',
      DestPath = arg_string args ''dest_path'',
      Namespace = arg_string_or args ''namespace'' ''default'',
      Image = arg_string_or args ''image'' ''busybox'',
      Privileged = arg_bool_or args ''privileged'' True\<rparr>"

text \<open>Tool calls for the runs below: a listing with the optional arguments unset, one
  with the empty string for them, one that overrides them, and one without
  \<open>node_name\<close>.\<close>

definition args_list :: "string \<rightharpoonup> json_value" where
  "args_list = [''node_name'' \<mapsto> JString ''worker-1'', ''operation'' \<mapsto> JString ''list'',
                ''source_path'' \<mapsto> JString ''/tmp'']"

definition args_empty :: "string \<rightharpoonup> json_value" where
  "args_empty = args_list(''namespace'' \<mapsto> JString [], ''image'' \<mapsto> JString [],
                           ''privileged'' \<mapsto> JNull)"

definition args_custom :: "string \<rightharpoonup> json_value" where
  "args_custom = args_list(''namespace'' \<mapsto> JString ''custom-ns'', ''image'' \<mapsto> JString ''alpine'',
                            ''privileged'' \<mapsto> JBool False)"

definition args_no_node :: "string \<rightharpoonup> json_value" where
  "args_no_node = [''node_name'' \<mapsto> JString [], ''operation'' \<mapsto> JString ''list'',
                   ''source_path'' \<mapsto> JString ''/tmp'']"

definition args_get :: "string \<rightharpoonup> json_value" where
  "args_get = [''node_name'' \<mapsto> JString ''worker-1'', ''operation'' \<mapsto> JString ''get'',
               ''source_path'' \<mapsto> JString ''/proc/meminfo'']"

section \<open>Properties of execInPod\<close>

lemma w0_fields [simp]:
  "trace w0 = []" "clock w0 = 0" "polls w0 = 0" "execs w0 = 0" "pod_fs w0 = Map.empty"
  by (simp_all add: w0_def)

lemma shouldFallback_iff:
  "shouldFallback r =
     (\<exists>e. r = Some e \<and> (IsUpgradeFailure (Some e) \<or> IsHTTPSProxyError (Some e)))"
  by (cases r) (simp_all add: shouldFallback_def IsUpgradeFailure_def IsHTTPSProxyError_def)

lemma stream_attempt_world:
  "stream_attempt E t ctx ns pn command w = (a, w') \<Longrightarrow>
     trace w' = trace w @ [ExecStream t ctx ns pn command] \<and> execs w' = execs w
     \<and> clock w' = clock w \<and> polls w' = polls w \<and> local_fs w' = local_fs w
     \<and> pod_fs w' = a_fs a
     \<and> a = (case t of WebSocket \<Rightarrow> ws_stream E | SPDY \<Rightarrow> spdy_stream E)
              (execs w) command (pod_fs w)"
  by (auto simp: stream_attempt_def emit_def Let_def)

text \<open>
  C4. An exec call whose executors cannot be built returns the constructor's error and
  attempts no transport. Otherwise it first streams through the WebSocket transport. The
  SPDY transport is tried exactly when that attempt returned an error that
  \<open>IsUpgradeFailure\<close> or \<open>IsHTTPSProxyError\<close> accepts, and never after a success.
  The error of the last attempt made is the error of the stream, unchanged: a failure
  of another kind, or a failure of the SPDY transport, is followed by no further
  attempt. \<open>execInPod\<close> returns that error itself when nothing was written to stderr,
  and otherwise wraps it (\<open>%w\<close>) behind \<open>exec error: \<close>, the stderr text and \<open>: \<close>;
  without an error it returns stdout, or stderr when stdout is empty and stderr is not.
\<close>

theorem execInPod_transport_fallback:
  "let a1 = ws_stream E (execs w) command (pod_fs w);
       a2 = spdy_stream E (execs w) command (a_fs a1);
       fallback = (\<exists>e. a_err a1 = Some e
                      \<and> (IsUpgradeFailure (Some e) \<or> IsHTTPSProxyError (Some e)));
       terminal = (if fallback then a_err a2 else a_err a1);
       stdout = (if fallback then a_stdout a1 @ a_stdout a2 else a_stdout a1);
       stderr = (if fallback then a_stderr a1 @ a_stderr a2 else a_stderr a1);
       res = execInPod E ctx ns pn command w
   in (case constructor_error E of
         Some err \<Rightarrow> fst res = Inl err \<and> issued w (snd res) = []
       | None \<Rightarrow>
           issued w (snd res) =
             ExecStream WebSocket ctx ns pn command
               # (if fallback then [ExecStream SPDY ctx ns pn command] else [])
           \<and> fst (FallbackExecutor_StreamWithContext E ctx ns pn command w) =
               (terminal, stdout, stderr)
           \<and> fst res =
               (case terminal of
                  Some e \<Rightarrow>
                    Inl (if stderr = [] then e
                         else WrapError (''exec error: '' @ stderr @ '': '') e)
                | None \<Rightarrow> Inr (if stderr \<noteq> [] \<and> stdout = [] then stderr else stdout)))"
proof (cases "constructor_error E")
  case (Some err)
  then show ?thesis
    by (auto simp: constructor_error_def execInPod_def issued_def Let_def split: option.splits)
next
  case None
  then have ctor: "NewSPDYExecutor_err E = None" "NewWebSocketExecutor_err E = None"
      "NewFallbackExecutor_err E = None"
    by (auto simp: constructor_error_def split: option.splits)
  obtain a1 w1 where s1: "stream_attempt E WebSocket ctx ns pn command w = (a1, w1)"
    by (cases "stream_attempt E WebSocket ctx ns pn command w")
  obtain a2 w2 where s2: "stream_attempt E SPDY ctx ns pn command w1 = (a2, w2)"
    by (cases "stream_attempt E SPDY ctx ns pn command w1")
  note t1 = stream_attempt_world [OF s1] and t2 = stream_attempt_world [OF s2]
  show ?thesis
  proof (cases "shouldFallback (a_err a1)")
    case True
    then have fb: "\<exists>e. a_err a1 = Some e
                     \<and> (IsUpgradeFailure (Some e) \<or> IsHTTPSProxyError (Some e))"
      by (simp add: shouldFallback_iff)
    have F: "FallbackExecutor_StreamWithContext E ctx ns pn command w =
               ((a_err a2, a_stdout a1 @ a_stdout a2, a_stderr a1 @ a_stderr a2), w2)"
      using True s1 s2 by (simp add: FallbackExecutor_StreamWithContext_def)
    show ?thesis
      using None ctor fb t1 t2 F
      by (cases "a_err a2") (auto simp: execInPod_def Let_def issued_def)
  next
    case False
    then have nfb: "\<not> (\<exists>e. a_err a1 = Some e
                         \<and> (IsUpgradeFailure (Some e) \<or> IsHTTPSProxyError (Some e)))"
      by (simp add: shouldFallback_iff)
    have F: "FallbackExecutor_StreamWithContext E ctx ns pn command w =
               ((a_err a1, a_stdout a1, a_stderr a1), w1)"
      using False s1 by (simp add: FallbackExecutor_StreamWithContext_def)
    show ?thesis
      using None ctor nfb t1 F
      by (cases "a_err a1") (auto simp: execInPod_def Let_def issued_def)
  qed
qed

lemma E_upgrade_facts:
  "constructor_error E_upgrade = None"
  "ws_stream E_upgrade i c fs = upgrade_refused i c fs"
  "spdy_stream E_upgrade i c fs = sh_stream i c fs"
  "constructor_error E_refused = None"
  "ws_stream E_refused i c fs = conn_refused i c fs"
  by (simp_all add: constructor_error_def E_upgrade_def E_refused_def E0_def)

lemma sh_stream_missing:
  "sh_stream i (sh_c ''cat /host/etc/hostname'') Map.empty =
     \<lparr>a_stdout = [], a_stderr = ''cat: /host/etc/hostname: No such file or directory'',
      a_err = Some (ErrorString ''command terminated with exit code 1''), a_fs = Map.empty\<rparr>"
  by (simp add: sh_stream_def sh_c_def sh_script_def sh_read_def sh_fail_def plain_path_def
        plain_char_def)

theorem execInPod_transport_fallback_witness:
  "issued w0 (snd (execInPod E_upgrade ctx0 ''default'' ''p''
                        (sh_c ''cat /host/etc/hostname'') w0)) =
       [ExecStream WebSocket ctx0 ''default'' ''p'' (sh_c ''cat /host/etc/hostname''),
        ExecStream SPDY ctx0 ''default'' ''p'' (sh_c ''cat /host/etc/hostname'')]
   \<and> fst (execInPod E_upgrade ctx0 ''default'' ''p'' (sh_c ''cat /host/etc/hostname'') w0) =
       Inl (WrapError ''exec error: cat: /host/etc/hostname: No such file or directory: ''
              (ErrorString ''command terminated with exit code 1''))
   \<and> issued w0 (snd (execInPod E_refused ctx0 ''default'' ''p''
                        (sh_c ''cat /host/etc/hostname'') w0)) =
       [ExecStream WebSocket ctx0 ''default'' ''p'' (sh_c ''cat /host/etc/hostname'')]
   \<and> fst (execInPod E_refused ctx0 ''default'' ''p'' (sh_c ''cat /host/etc/hostname'') w0) =
       Inl (ErrorString ''dial tcp 10.0.0.1:6443: connect: connection refused'')"
  using execInPod_transport_fallback
          [of E_upgrade w0 "sh_c ''cat /host/etc/hostname''" ctx0 "''default''" "''p''"]
        execInPod_transport_fallback
          [of E_refused w0 "sh_c ''cat /host/etc/hostname''" ctx0 "''default''" "''p''"]
  by (simp add: E_upgrade_facts sh_stream_missing upgrade_refused_def conn_refused_def Let_def
        IsUpgradeFailure_def IsHTTPSProxyError_def)

text \<open>
  C5. With the three executors built: when the stream ends without error, nothing was
  written to stdout and something to stderr, \<open>execInPod\<close> returns the stderr text as
  its result (and the stdout text in every other case without error); when the stream
  fails and stderr is not empty, the returned error has the message
  \<open>exec error: \<close>, the stderr text, \<open>: \<close>, the message of the stream's error, and
  wraps that error; when the stream fails and stderr is empty the stream's error is
  returned as it is.
\<close>

theorem execInPod_output_interpretation:
  assumes "NewSPDYExecutor_err E = None" and "NewWebSocketExecutor_err E = None"
      and "NewFallbackExecutor_err E = None"
      and "fst (FallbackExecutor_StreamWithContext E ctx ns pn command w) = (serr, out, errout)"
  shows "(serr = None \<and> out = [] \<and> errout \<noteq> [] \<longrightarrow>
            fst (execInPod E ctx ns pn command w) = Inr errout)
       \<and> (serr = None \<and> \<not> (out = [] \<and> errout \<noteq> []) \<longrightarrow>
            fst (execInPod E ctx ns pn command w) = Inr out)
       \<and> (\<forall>e. serr = Some e \<and> errout \<noteq> [] \<longrightarrow>
            (\<exists>err. fst (execInPod E ctx ns pn command w) = Inl err
               \<and> err = WrapError (''exec error: '' @ errout @ '': '') e
               \<and> err_Error err = ''exec error: '' @ errout @ '': '' @ err_Error e))
       \<and> (\<forall>e. serr = Some e \<and> errout = [] \<longrightarrow>
            fst (execInPod E ctx ns pn command w) = Inl e)"
  using assms
  by (cases "FallbackExecutor_StreamWithContext E ctx ns pn command w")
     (auto simp: execInPod_def Let_def split: option.splits)

lemma stream_E_warns:
  "fst (FallbackExecutor_StreamWithContext E_warns ctx0 ''default'' ''p'' (sh_c ''ls -la /host/'') w0)
     = (None, [], ''ls: /host/lost+found: Permission denied'')"
  by (simp add: FallbackExecutor_StreamWithContext_def stream_attempt_def E_warns_def E0_def
        warns_only_def shouldFallback_def IsUpgradeFailure_def IsHTTPSProxyError_def Let_def)

lemma stream_E0_missing:
  "fst (FallbackExecutor_StreamWithContext E0 ctx0 ''default'' ''p'' (sh_c ''cat /host/none'') w0)
     = (Some (ErrorString ''command terminated with exit code 1''), [],
        ''cat: /host/none: No such file or directory'')"
  by (simp add: FallbackExecutor_StreamWithContext_def stream_attempt_def E0_def w0_def sh_c_def
        sh_stream_def sh_script_def sh_read_def sh_fail_def plain_path_def plain_char_def
        shouldFallback_def IsUpgradeFailure_def IsHTTPSProxyError_def Let_def emit_def)

theorem execInPod_output_interpretation_witness:
  "fst (execInPod E_warns ctx0 ''default'' ''p'' (sh_c ''ls -la /host/'') w0) =
     Inr ''ls: /host/lost+found: Permission denied''
   \<and> (\<exists>err. fst (execInPod E0 ctx0 ''default'' ''p'' (sh_c ''cat /host/none'') w0) = Inl err
         \<and> err_Error err =
             ''exec error: cat: /host/none: No such file or directory: command terminated with exit code 1'')"
proof -
  have c: "NewSPDYExecutor_err E_warns = None" "NewWebSocketExecutor_err E_warns = None"
          "NewFallbackExecutor_err E_warns = None"
          "NewSPDYExecutor_err E0 = None" "NewWebSocketExecutor_err E0 = None"
          "NewFallbackExecutor_err E0 = None"
    by (simp_all add: E_warns_def E0_def)
  show ?thesis
    using execInPod_output_interpretation [OF c(1) c(2) c(3) stream_E_warns]
          execInPod_output_interpretation [OF c(4) c(5) c(6) stream_E0_missing]
    by simp
qed

section \<open>Properties of waitForPodReady\<close>

text \<open>The loop over the conditions finds a condition of type \<open>Ready\<close> and status
  \<open>True\<close> exactly when there is one.\<close>

lemma has_ready_condition_iff:
  "has_ready_condition cs = (\<exists>c \<in> set cs. cond_Type c = ''Ready'' \<and> cond_Status c = ''True'')"
  by (induction cs) auto

lemma poll_loop_timeout:
  "deadline < clock w \<Longrightarrow>
     poll_loop E ctx ns pn deadline w = (Some (ErrorString ''timeout waiting for pod to be ready''), w)"
  by (simp add: poll_loop.simps)

lemma poll_loop_error:
  "\<not> deadline < clock w \<Longrightarrow> pods_get E (polls w) ctx ns pn = Inl err \<Longrightarrow>
     poll_loop E ctx ns pn deadline w = (Some err, pods_Get_done E ctx ns pn w)"
  by (simp add: poll_loop.simps)

lemma poll_loop_ready:
  "\<not> deadline < clock w \<Longrightarrow> observed_ready (pods_get E (polls w) ctx ns pn) \<Longrightarrow>
     poll_loop E ctx ns pn deadline w = (None, pods_Get_done E ctx ns pn w)"
  by (auto simp: poll_loop.simps [of E ctx ns pn deadline w] observed_ready_def
        has_ready_condition_iff split: sum.splits)

lemma poll_loop_failed:
  "\<not> deadline < clock w \<Longrightarrow> observed_failed (pods_get E (polls w) ctx ns pn) \<Longrightarrow>
     poll_loop E ctx ns pn deadline w = (Some (ErrorString ''pod failed''), pods_Get_done E ctx ns pn w)"
  by (auto simp: poll_loop.simps [of E ctx ns pn deadline w] observed_failed_def split: sum.splits)

lemma poll_loop_pending:
  "\<not> deadline < clock w \<Longrightarrow> observed_pending (pods_get E (polls w) ctx ns pn) \<Longrightarrow>
     poll_loop E ctx ns pn deadline w =
       poll_loop E ctx ns pn deadline (time_Sleep E (polls w) 2000 (pods_Get_done E ctx ns pn w))"
  by (auto simp: poll_loop.simps [of E ctx ns pn deadline w] observed_pending_def
        has_ready_condition_iff split: sum.splits)

lemma observed_cases:
  "(\<exists>err. r = Inl err) \<or> observed_ready r \<or> observed_failed r \<or> observed_pending r"
  by (cases r) (auto simp: observed_ready_def observed_failed_def observed_pending_def)


lemma pods_Get_done_fields [simp]:
  "trace (pods_Get_done E ctx ns pn w) = trace w @ [PodsGet ctx ns pn]"
  "polls (pods_Get_done E ctx ns pn w) = Suc (polls w)"
  "clock (pods_Get_done E ctx ns pn w) = clock w + get_latency E (polls w)"
  "execs (pods_Get_done E ctx ns pn w) = execs w"
  "pod_fs (pods_Get_done E ctx ns pn w) = pod_fs w"
  "local_fs (pods_Get_done E ctx ns pn w) = local_fs w"
  by (simp_all add: pods_Get_done_def emit_def)

lemma time_Sleep_fields [simp]:
  "trace (time_Sleep E k ms w) = trace w"
  "polls (time_Sleep E k ms w) = polls w"
  "clock (time_Sleep E k ms w) = clock w + ms + sleep_overrun E k"
  "execs (time_Sleep E k ms w) = execs w"
  "pod_fs (time_Sleep E k ms w) = pod_fs w"
  "local_fs (time_Sleep E k ms w) = local_fs w"
  by (simp_all add: time_Sleep_def)

text \<open>Induction over the polls that the loop makes.\<close>

lemma poll_loop_induct [consumes 0, case_names timeout error ready failed pending]:
  assumes "\<And>w. deadline < clock w \<Longrightarrow> P w"
      and "\<And>w err. \<not> deadline < clock w \<Longrightarrow> pods_get E (polls w) ctx ns pn = Inl err \<Longrightarrow> P w"
      and "\<And>w. \<not> deadline < clock w \<Longrightarrow> observed_ready (pods_get E (polls w) ctx ns pn) \<Longrightarrow> P w"
      and "\<And>w. \<not> deadline < clock w \<Longrightarrow> observed_failed (pods_get E (polls w) ctx ns pn) \<Longrightarrow> P w"
      and "\<And>w. \<not> deadline < clock w \<Longrightarrow> observed_pending (pods_get E (polls w) ctx ns pn) \<Longrightarrow>
                 P (time_Sleep E (polls w) 2000 (pods_Get_done E ctx ns pn w)) \<Longrightarrow> P w"
  shows "P w"
proof (induction w rule: measure_induct_rule [where f = "\<lambda>w. Suc deadline - clock w"])
  case (less w)
  show ?case
  proof (cases "deadline < clock w")
    case True
    then show ?thesis by (rule assms(1))
  next
    case False
    from observed_cases [of "pods_get E (polls w) ctx ns pn"] show ?thesis
    proof (elim disjE exE)
      fix err assume "pods_get E (polls w) ctx ns pn = Inl err"
      with False show ?thesis by (rule assms(2))
    next
      assume "observed_ready (pods_get E (polls w) ctx ns pn)"
      with False show ?thesis by (rule assms(3))
    next
      assume "observed_failed (pods_get E (polls w) ctx ns pn)"
      with False show ?thesis by (rule assms(4))
    next
      assume p: "observed_pending (pods_get E (polls w) ctx ns pn)"
      have "P (time_Sleep E (polls w) 2000 (pods_Get_done E ctx ns pn w))"
        using False by (intro less.IH) simp
      with False p show ?thesis by (rule assms(5))
    qed
  qed
qed


lemma poll_loop_frame:
  "polls w \<le> polls (snd (poll_loop E ctx ns pn d w))
   \<and> execs (snd (poll_loop E ctx ns pn d w)) = execs w
   \<and> pod_fs (snd (poll_loop E ctx ns pn d w)) = pod_fs w
   \<and> local_fs (snd (poll_loop E ctx ns pn d w)) = local_fs w
   \<and> trace (snd (poll_loop E ctx ns pn d w)) =
       trace w @ replicate (polls (snd (poll_loop E ctx ns pn d w)) - polls w) (PodsGet ctx ns pn)"
proof (induction w rule: poll_loop_induct [where deadline = d and E = E and ctx = ctx and ns = ns and pn = pn])
  case (timeout w)
  then show ?case by (simp add: poll_loop_timeout)
next
  case (error w err)
  then show ?case by (simp add: poll_loop_error)
next
  case (ready w)
  then show ?case by (simp add: poll_loop_ready)
next
  case (failed w)
  then show ?case by (simp add: poll_loop_failed)
next
  case (pending w)
  let ?w' = "snd (poll_loop E ctx ns pn d (time_Sleep E (polls w) 2000 (pods_Get_done E ctx ns pn w)))"
  have eq: "poll_loop E ctx ns pn d w =
            poll_loop E ctx ns pn d (time_Sleep E (polls w) 2000 (pods_Get_done E ctx ns pn w))"
    using pending(1,2) by (rule poll_loop_pending)
  from pending(3) have le: "Suc (polls w) \<le> polls ?w'" by simp
  then have "replicate (polls ?w' - polls w) (PodsGet ctx ns pn)
             = PodsGet ctx ns pn # replicate (polls ?w' - Suc (polls w)) (PodsGet ctx ns pn)"
    by (metis Suc_diff_le diff_Suc_Suc replicate_Suc)
  with pending(3) le show ?case by (simp add: eq)
qed




lemma waitForPodReady_frame:
  "polls w \<le> polls (snd (waitForPodReady E ctx ns pn timeout w))
   \<and> execs (snd (waitForPodReady E ctx ns pn timeout w)) = execs w
   \<and> pod_fs (snd (waitForPodReady E ctx ns pn timeout w)) = pod_fs w
   \<and> local_fs (snd (waitForPodReady E ctx ns pn timeout w)) = local_fs w
   \<and> trace (snd (waitForPodReady E ctx ns pn timeout w)) =
       trace w @ replicate (polls (snd (waitForPodReady E ctx ns pn timeout w)) - polls w) (PodsGet ctx ns pn)"
  using poll_loop_frame [of w E ctx ns pn "clock w + timeout"]
  by (cases "pods_client E ns") (simp_all add: waitForPodReady_def)






section \<open>Properties of NodesFiles\<close>

lemma only_same: "trace w' = trace w \<Longrightarrow> only P w w'"
  by (simp add: only_def)

lemma only_trans: "only P w w1 \<Longrightarrow> only P w1 w2 \<Longrightarrow> only P w w2"
  by (auto simp: only_def)

lemma only_emit: "P e \<Longrightarrow> only P w (emit e w)"
  by (simp add: only_def emit_def)

lemma only_mono: "only P w w' \<Longrightarrow> (\<And>e. P e \<Longrightarrow> Q e) \<Longrightarrow> only Q w w'"
  by (auto simp: only_def list_all_iff)

lemma only_filter:
  "only P w w' \<Longrightarrow> (\<And>e. P e \<Longrightarrow> \<not> Q e) \<Longrightarrow> filter Q (issued w w') = []"
  by (auto simp: only_def issued_def list_all_iff filter_empty_conv)

lemma only_issued: "only P w w' \<Longrightarrow> trace w' = trace w @ issued w w' \<and> list_all P (issued w w')"
  by (auto simp: only_def issued_def)

lemma execInPod_only: "only is_exec w (snd (execInPod E ctx ns pn command w))"
proof -
  obtain a1 w1 where s1: "stream_attempt E WebSocket ctx ns pn command w = (a1, w1)"
    by (cases "stream_attempt E WebSocket ctx ns pn command w")
  obtain a2 w2 where s2: "stream_attempt E SPDY ctx ns pn command w1 = (a2, w2)"
    by (cases "stream_attempt E SPDY ctx ns pn command w1")
  note t1 = stream_attempt_world [OF s1] and t2 = stream_attempt_world [OF s2]
  show ?thesis
    using s1 s2 t1 t2
    by (auto simp: execInPod_def FallbackExecutor_StreamWithContext_def only_def Let_def
             split: option.splits)
qed

lemma execInPod_local_fs: "local_fs (snd (execInPod E ctx ns pn command w)) = local_fs w"
proof -
  obtain a1 w1 where s1: "stream_attempt E WebSocket ctx ns pn command w = (a1, w1)"
    by (cases "stream_attempt E WebSocket ctx ns pn command w")
  obtain a2 w2 where s2: "stream_attempt E SPDY ctx ns pn command w1 = (a2, w2)"
    by (cases "stream_attempt E SPDY ctx ns pn command w1")
  note t1 = stream_attempt_world [OF s1] and t2 = stream_attempt_world [OF s2]
  show ?thesis
    using s1 s2 t1 t2
    by (auto simp: execInPod_def FallbackExecutor_StreamWithContext_def Let_def
             split: option.splits)
qed

lemma waitForPodReady_only: "only is_get w (snd (waitForPodReady E ctx ns pn timeout w))"
proof -
  have "list_all is_get (replicate n (PodsGet ctx ns pn))" for n
    by (simp add: list_all_iff)
  with waitForPodReady_frame [of w E ctx ns pn timeout] show ?thesis
    unfolding only_def by blast
qed

lemma nodeFilesList_only: "only is_exec w (snd (nodeFilesList E ctx ns pn path w))"
  using execInPod_only [of w E ctx ns pn "sh_c (''ls -la /host'' @ path)"]
  by (auto simp: nodeFilesList_def split: prod.splits sum.splits)

lemma nodeFilesGet_only:
  "only (\<lambda>e. is_exec e \<or> is_os e) w (snd (nodeFilesGet E ctx ns pn src dst w))"
proof -
  obtain r w1 where x: "execInPod E ctx ns pn (sh_c (''cat /host'' @ src)) w = (r, w1)"
    by (cases "execInPod E ctx ns pn (sh_c (''cat /host'' @ src)) w")
  obtain evs where evs: "trace w1 = trace w @ evs" "list_all is_exec evs"
    using execInPod_only [of w E ctx ns pn "sh_c (''cat /host'' @ src)"] x
    by (auto simp: only_def)
  show ?thesis
    using x evs
    by (cases r)
       (auto simp: nodeFilesGet_def Let_def only_def emit_def list_all_iff split: option.splits)
qed

lemma nodeFilesPut_only:
  "only (\<lambda>e. is_exec e \<or> is_os e) w (snd (nodeFilesPut E ctx ns pn src dst w))"
proof (cases "local_fs w src")
  case None
  then show ?thesis by (simp add: nodeFilesPut_def only_def emit_def)
next
  case (Some content)
  let ?w0 = "emit (OsReadFile src) w"
  let ?mk = "sh_c (''mkdir -p /host'' @ filepath_Dir dst)"
  let ?wr = "sh_c (write_script dst (escapeContent content))"
  have e0: "trace ?w0 = trace w @ [OsReadFile src]" by (simp add: emit_def)
  obtain r1 w1 where x1: "execInPod E ctx ns pn ?mk ?w0 = (r1, w1)"
    by (cases "execInPod E ctx ns pn ?mk ?w0")
  obtain evs1 where evs1: "trace w1 = trace ?w0 @ evs1" "list_all is_exec evs1"
    using execInPod_only [of ?w0 E ctx ns pn ?mk] x1 by (auto simp: only_def)
  obtain r2 w2 where x2: "execInPod E ctx ns pn ?wr w1 = (r2, w2)"
    by (cases "execInPod E ctx ns pn ?wr w1")
  obtain evs2 where evs2: "trace w2 = trace w1 @ evs2" "list_all is_exec evs2"
    using execInPod_only [of w1 E ctx ns pn ?wr] x2 by (auto simp: only_def)
  obtain r3 w3 where x3: "execInPod E ctx ns pn ?wr ?w0 = (r3, w3)"
    by (cases "execInPod E ctx ns pn ?wr ?w0")
  obtain evs3 where evs3: "trace w3 = trace ?w0 @ evs3" "list_all is_exec evs3"
    using execInPod_only [of ?w0 E ctx ns pn ?wr] x3 by (auto simp: only_def)
  show ?thesis
    using Some x1 x2 x3 evs1 evs2 evs3 e0
    by (cases r1; cases r2; cases r3)
       (auto simp: nodeFilesPut_def Let_def only_def list_all_iff)
qed


lemma NodesFiles_body_only:
  "only (\<lambda>e. \<not> is_delete e \<and> \<not> is_create e) w (snd (NodesFiles_body E ctx opts pn w))"
proof -
  let ?Q = "\<lambda>e. \<not> is_delete e \<and> \<not> is_create e"
  obtain r w1 where wt: "waitForPodReady E ctx (Namespace opts) pn 120000 w = (r, w1)"
    by (cases "waitForPodReady E ctx (Namespace opts) pn 120000 w")
  have g: "is_get e \<Longrightarrow> ?Q e" for e by (cases e) simp_all
  have x: "is_exec e \<Longrightarrow> ?Q e" for e by (cases e) simp_all
  have xo: "is_exec e \<or> is_os e \<Longrightarrow> ?Q e" for e by (cases e) simp_all
  have o1: "only ?Q w w1"
    using waitForPodReady_only [of w E ctx "Namespace opts" pn 120000] wt g
    by (auto intro: only_mono)
  have o2: "only ?Q w1 (snd (nodeFilesPut E ctx (Namespace opts) pn (SourcePath opts) (DestPath opts) w1))"
    by (rule only_mono [OF nodeFilesPut_only xo])
  have o3: "only ?Q w1 (snd (nodeFilesGet E ctx (Namespace opts) pn (SourcePath opts) (DestPath opts) w1))"
    by (rule only_mono [OF nodeFilesGet_only xo])
  have o4: "only ?Q w1 (snd (nodeFilesList E ctx (Namespace opts) pn (SourcePath opts) w1))"
    by (rule only_mono [OF nodeFilesList_only x])
  show ?thesis
    using wt o1 only_trans [OF o1 o2] only_trans [OF o1 o3] only_trans [OF o1 o4]
    by (cases r) (simp_all add: NodesFiles_body_def)
qed

lemma NodesFiles_trace:
  assumes "pods_client E (Namespace (set_defaults opts)) = None"
      and "pods_create E ctx (sandbox_pod (set_defaults opts) (''node-files-'' @ rand_String E 5)) = None"
  shows "\<exists>evs. issued w (snd (NodesFiles E ctx opts w)) =
            PodsCreate ctx (Namespace (set_defaults opts))
              (sandbox_pod (set_defaults opts) (''node-files-'' @ rand_String E 5))
            # evs
            @ [PodsDelete (WithTimeout Background 30000) (Namespace (set_defaults opts))
                 (''node-files-'' @ rand_String E 5)
                 (pods_delete E (WithTimeout Background 30000) (Namespace (set_defaults opts))
                    (''node-files-'' @ rand_String E 5))]
          \<and> list_all (\<lambda>e. \<not> is_delete e \<and> \<not> is_create e) evs"
proof -
  let ?o = "set_defaults opts"
  let ?pn = "''node-files-'' @ rand_String E 5"
  let ?w1 = "emit (PodsCreate ctx (Namespace ?o) (sandbox_pod ?o ?pn)) w"
  obtain r w2 where b: "NodesFiles_body E ctx ?o ?pn ?w1 = (r, w2)"
    by (cases "NodesFiles_body E ctx ?o ?pn ?w1")
  obtain evs where evs: "trace w2 = trace ?w1 @ evs" "list_all (\<lambda>e. \<not> is_delete e \<and> \<not> is_create e) evs"
    using NodesFiles_body_only [of ?w1 E ctx ?o ?pn] b by (auto simp: only_def)
  show ?thesis
    using assms b evs
    by (simp add: NodesFiles_def Let_def deferred_delete_def emit_def issued_def)
qed


lemma execInPod_pods_delete [simp]:
  "execInPod (E\<lparr>pods_delete := d\<rparr>) ctx ns pn command w = execInPod E ctx ns pn command w"
  by (simp add: execInPod_def FallbackExecutor_StreamWithContext_def stream_attempt_def
           cong: option.case_cong prod.case_cong transport.case_cong if_cong)

lemma poll_loop_pods_delete:
  "poll_loop (E\<lparr>pods_delete := d\<rparr>) ctx ns pn dl w = poll_loop E ctx ns pn dl w"
proof (induction w rule: poll_loop_induct [where deadline = dl and E = E and ctx = ctx and ns = ns and pn = pn])
  case (timeout w)
  then show ?case by (simp add: poll_loop_timeout)
next
  case (error w err)
  then show ?case by (simp add: poll_loop_error pods_Get_done_def)
next
  case (ready w)
  then show ?case by (simp add: poll_loop_ready pods_Get_done_def)
next
  case (failed w)
  then show ?case by (simp add: poll_loop_failed pods_Get_done_def)
next
  case (pending w)
  have "poll_loop (E\<lparr>pods_delete := d\<rparr>) ctx ns pn dl w =
        poll_loop (E\<lparr>pods_delete := d\<rparr>) ctx ns pn dl
          (time_Sleep (E\<lparr>pods_delete := d\<rparr>) (polls w) 2000
             (pods_Get_done (E\<lparr>pods_delete := d\<rparr>) ctx ns pn w))"
    using pending(1,2) by (intro poll_loop_pending) simp_all
  also have "\<dots> = poll_loop (E\<lparr>pods_delete := d\<rparr>) ctx ns pn dl
                     (time_Sleep E (polls w) 2000 (pods_Get_done E ctx ns pn w))"
    by (simp add: time_Sleep_def pods_Get_done_def)
  also have "\<dots> = poll_loop E ctx ns pn dl (time_Sleep E (polls w) 2000 (pods_Get_done E ctx ns pn w))"
    by (rule pending(3))
  also have "\<dots> = poll_loop E ctx ns pn dl w"
    using pending(1,2) by (rule poll_loop_pending [symmetric])
  finally show ?case .
qed

lemma NodesFiles_body_pods_delete:
  "NodesFiles_body (E\<lparr>pods_delete := d\<rparr>) ctx opts pn w = NodesFiles_body E ctx opts pn w"
  by (simp add: NodesFiles_body_def waitForPodReady_def poll_loop_pods_delete
        nodeFilesPut_def nodeFilesGet_def nodeFilesList_def Let_def
           cong: option.case_cong prod.case_cong sum.case_cong if_cong)

lemma concrete_names [simp]:
  "Namespace (set_defaults opts_get) = ''default''"
  "Namespace (set_defaults opts_invalid) = ''default''"
  "sandbox_name E0 = ''node-files-x7k2p''"
  "sandbox_name E_canceled = ''node-files-x7k2p''"
  "sandbox_name E_failed = ''node-files-x7k2p''"
  "pods_delete E_canceled = forbidden"
  by (simp_all add: set_defaults_def opts_get_def opts_invalid_def sandbox_name_def
        E_canceled_def E_failed_def E0_def)

lemma run_canceled:
  "NodesFiles E_canceled ctx0 opts_get w0 =
     (Inl (WrapError ''pod failed to become ready: '' (ErrorString ''context canceled'')),
      w0\<lparr>trace := [PodsCreate ctx0 ''default'' (sandbox_pod (set_defaults opts_get) ''node-files-x7k2p''),
                   PodsGet ctx0 ''default'' ''node-files-x7k2p'',
                   PodsDelete (WithTimeout Background 30000) ''default'' ''node-files-x7k2p''
                     (Some (ErrorString ''pods is forbidden''))],
         clock := 5, polls := 1\<rparr>)"
  by (simp add: NodesFiles_def NodesFiles_body_def waitForPodReady_def poll_loop.simps
        deferred_delete_def set_defaults_def opts_get_def E_canceled_def E0_def w0_def canceled_def
        forbidden_def pods_Get_done_def emit_def Let_def)

lemmas run_defs =
  NodesFiles_def NodesFiles_body_def waitForPodReady_def poll_loop.simps
  deferred_delete_def set_defaults_def E0_def w0_def
  ready_status_def pods_Get_done_def emit_def Let_def
  nodeFilesGet_def nodeFilesPut_def nodeFilesList_def execInPod_def
  FallbackExecutor_StreamWithContext_def stream_attempt_def shouldFallback_def
  IsUpgradeFailure_def IsHTTPSProxyError_def sh_c_def sh_stream_def sh_script_def
  sh_read_def sh_write_def sh_ok_def sh_fail_def plain_path_def plain_char_def
  filepath_Base_def filepath_Dir_def filepath_Clean_def

lemma run_get_ok:
  "fst (NodesFiles E0 ctx0 opts_get w_node) =
     Inr ''File successfully copied from node:/proc/meminfo to meminfo''
   \<and> issued w_node (snd (NodesFiles E0 ctx0 opts_get w_node)) =
       [PodsCreate ctx0 ''default'' (sandbox_pod (set_defaults opts_get) ''node-files-x7k2p''),
        PodsGet ctx0 ''default'' ''node-files-x7k2p'',
        ExecStream WebSocket ctx0 ''default'' ''node-files-x7k2p'' (sh_c ''cat /host/proc/meminfo''),
        OsWriteFile ''meminfo'' (''MemTotal: 16384 kB'' @ [newline]),
        PodsDelete (WithTimeout Background 30000) ''default'' ''node-files-x7k2p'' None]
   \<and> local_fs (snd (NodesFiles E0 ctx0 opts_get w_node)) ''meminfo'' =
       Some (''MemTotal: 16384 kB'' @ [newline])"
  by (simp add: run_defs opts_get_def w_node_def issued_def)

lemma run_get_missing:
  "fst (NodesFiles E0 ctx0 opts_get w0) =
     Inl (WrapError ''failed to read file from node: ''
           (WrapError ''exec error: cat: /host/proc/meminfo: No such file or directory: ''
              (ErrorString ''command terminated with exit code 1'')))
   \<and> issued w0 (snd (NodesFiles E0 ctx0 opts_get w0)) =
       [PodsCreate ctx0 ''default'' (sandbox_pod (set_defaults opts_get) ''node-files-x7k2p''),
        PodsGet ctx0 ''default'' ''node-files-x7k2p'',
        ExecStream WebSocket ctx0 ''default'' ''node-files-x7k2p'' (sh_c ''cat /host/proc/meminfo''),
        PodsDelete (WithTimeout Background 30000) ''default'' ''node-files-x7k2p'' None]"
  by (simp add: run_defs opts_get_def issued_def)


lemma run_invalid:
  "NodesFiles E0 ctx0 opts_invalid w0 =
     (Inl (ErrorString ''unknown operation: invalid''),
      w0\<lparr>trace := [PodsCreate ctx0 ''default'' (sandbox_pod (set_defaults opts_invalid) ''node-files-x7k2p''),
                   PodsGet ctx0 ''default'' ''node-files-x7k2p'',
                   PodsDelete (WithTimeout Background 30000) ''default'' ''node-files-x7k2p'' None],
         clock := 5, polls := 1\<rparr>)"
  by (simp add: NodesFiles_def NodesFiles_body_def waitForPodReady_def poll_loop.simps
        deferred_delete_def set_defaults_def opts_invalid_def opts_get_def E0_def w0_def
        ready_status_def pods_Get_done_def emit_def Let_def)

lemma run_failed:
  "NodesFiles E_failed ctx0 opts_get w0 =
     (Inl (WrapError ''pod failed to become ready: '' (ErrorString ''pod failed'')),
      w0\<lparr>trace := [PodsCreate ctx0 ''default'' (sandbox_pod (set_defaults opts_get) ''node-files-x7k2p''),
                   PodsGet ctx0 ''default'' ''node-files-x7k2p'',
                   PodsDelete (WithTimeout Background 30000) ''default'' ''node-files-x7k2p'' None],
         clock := 5, polls := 1\<rparr>)"
  by (simp add: NodesFiles_def NodesFiles_body_def waitForPodReady_def poll_loop.simps
        deferred_delete_def set_defaults_def opts_get_def E_failed_def E0_def w0_def never_ready_def
        failed_status_def pods_Get_done_def emit_def Let_def)


lemma Operation_set_defaults [simp]: "Operation (set_defaults opts) = Operation opts"
  by (simp add: set_defaults_def Let_def)

lemma NodesFiles_not_created:
  assumes "\<not> creation_succeeds E ctx opts"
  shows "filter is_delete (issued w (snd (NodesFiles E ctx opts w))) = []"
  using assms
  by (auto simp: creation_succeeds_def sandbox_name_def NodesFiles_def Let_def issued_def
        emit_def split: option.splits)

text \<open>
  C1. When the sandbox pod was created (the pods client was obtained and the create
  request accepted), the requests a call of \<open>NodesFiles\<close> issues contain exactly one
  delete; it is the last request of the call, it names the pod that the one create
  request of the call submitted, and it goes through the same namespace. This holds
  whatever the readiness wait, the commands and the operation do, so on every way out
  of the function. When the pod was not created, no delete is issued.
\<close>

theorem NodesFiles_deletes_exactly_once:
  "let evs = issued w (snd (NodesFiles E ctx opts w));
       ns = Namespace (set_defaults opts);
       name = sandbox_name E;
       create = PodsCreate ctx ns (sandbox_pod (set_defaults opts) name);
       deleteCtx = WithTimeout Background 30000;
       del = PodsDelete deleteCtx ns name (pods_delete E deleteCtx ns name)
   in (creation_succeeds E ctx opts \<longrightarrow>
         filter is_delete evs = [del] \<and> last evs = del
         \<and> filter is_create evs = [create] \<and> hd evs = create
         \<and> p_Name (sandbox_pod (set_defaults opts) name) = name)
    \<and> (\<not> creation_succeeds E ctx opts \<longrightarrow> filter is_delete evs = [])"
proof -
  have "filter is_delete (issued w (snd (NodesFiles E ctx opts w))) = []"
    if "\<not> creation_succeeds E ctx opts"
    using that by (rule NodesFiles_not_created)
  moreover
  have "filter is_delete (issued w (snd (NodesFiles E ctx opts w))) =
          [PodsDelete (WithTimeout Background 30000) (Namespace (set_defaults opts)) (sandbox_name E)
             (pods_delete E (WithTimeout Background 30000) (Namespace (set_defaults opts))
                (sandbox_name E))]
        \<and> last (issued w (snd (NodesFiles E ctx opts w))) =
          PodsDelete (WithTimeout Background 30000) (Namespace (set_defaults opts)) (sandbox_name E)
             (pods_delete E (WithTimeout Background 30000) (Namespace (set_defaults opts))
                (sandbox_name E))
        \<and> filter is_create (issued w (snd (NodesFiles E ctx opts w))) =
          [PodsCreate ctx (Namespace (set_defaults opts))
             (sandbox_pod (set_defaults opts) (sandbox_name E))]
        \<and> hd (issued w (snd (NodesFiles E ctx opts w))) =
          PodsCreate ctx (Namespace (set_defaults opts))
             (sandbox_pod (set_defaults opts) (sandbox_name E))
        \<and> p_Name (sandbox_pod (set_defaults opts) (sandbox_name E)) = sandbox_name E"
    if c: "creation_succeeds E ctx opts"
  proof -
    from c NodesFiles_trace [of E opts ctx w]
    obtain evs where
      "issued w (snd (NodesFiles E ctx opts w)) =
         PodsCreate ctx (Namespace (set_defaults opts))
           (sandbox_pod (set_defaults opts) (sandbox_name E))
           # evs
           @ [PodsDelete (WithTimeout Background 30000) (Namespace (set_defaults opts))
                (sandbox_name E)
                (pods_delete E (WithTimeout Background 30000) (Namespace (set_defaults opts))
                   (sandbox_name E))]"
      and "list_all (\<lambda>e. \<not> is_delete e \<and> \<not> is_create e) evs"
      unfolding creation_succeeds_def sandbox_name_def by blast
    then show ?thesis
      by (auto simp: list_all_iff filter_empty_conv sandbox_pod_def)
  qed
  ultimately show ?thesis by (simp add: Let_def)
qed

theorem NodesFiles_deletes_exactly_once_witness:
  "creation_succeeds E0 ctx0 opts_get
   \<and> fst (NodesFiles E0 ctx0 opts_get w_node) =
       Inr ''File successfully copied from node:/proc/meminfo to meminfo''
   \<and> length (filter is_delete (issued w_node (snd (NodesFiles E0 ctx0 opts_get w_node)))) = 1
   \<and> fst (NodesFiles E_failed ctx0 opts_get w0) =
       Inl (WrapError ''pod failed to become ready: '' (ErrorString ''pod failed''))
   \<and> length (filter is_delete (issued w0 (snd (NodesFiles E_failed ctx0 opts_get w0)))) = 1
   \<and> fst (NodesFiles E0 ctx0 opts_get w0) =
       Inl (WrapError ''failed to read file from node: ''
             (WrapError ''exec error: cat: /host/proc/meminfo: No such file or directory: ''
                (ErrorString ''command terminated with exit code 1'')))
   \<and> length (filter is_delete (issued w0 (snd (NodesFiles E0 ctx0 opts_get w0)))) = 1
   \<and> fst (NodesFiles E0 ctx0 opts_invalid w0) = Inl (ErrorString ''unknown operation: invalid'')
   \<and> length (filter is_delete (issued w0 (snd (NodesFiles E0 ctx0 opts_invalid w0)))) = 1"
proof -
  have c: "creation_succeeds E0 ctx0 opts_get" "creation_succeeds E_failed ctx0 opts_get"
          "creation_succeeds E0 ctx0 opts_invalid"
    by (simp_all add: creation_succeeds_def E0_def E_failed_def)
  show ?thesis
    using c
      NodesFiles_deletes_exactly_once [of w_node E0 ctx0 opts_get]
      NodesFiles_deletes_exactly_once [of w0 E_failed ctx0 opts_get]
      NodesFiles_deletes_exactly_once [of w0 E0 ctx0 opts_get]
      NodesFiles_deletes_exactly_once [of w0 E0 ctx0 opts_invalid]
    by (simp add: Let_def run_get_ok run_get_missing run_failed run_invalid)
qed

text \<open>
  C7. When the sandbox pod was created, the last request of the call is the delete of
  that pod, sent under \<open>context.WithTimeout(context.Background(), 30 s)\<close>: a context
  that is the same whatever context the caller passed, so the delete is issued also when
  every request under the caller's context fails. What the API server answers to the
  delete does not change the result of the call: replacing the answers by any others
  leaves the returned value as it is.
\<close>

theorem NodesFiles_teardown_detached:
  "(creation_succeeds E ctx opts \<longrightarrow>
      last (issued w (snd (NodesFiles E ctx opts w))) =
        PodsDelete (WithTimeout Background 30000) (Namespace (set_defaults opts)) (sandbox_name E)
          (pods_delete E (WithTimeout Background 30000) (Namespace (set_defaults opts))
             (sandbox_name E)))
   \<and> fst (NodesFiles (E\<lparr>pods_delete := d\<rparr>) ctx opts w) = fst (NodesFiles E ctx opts w)"
proof
  show "creation_succeeds E ctx opts \<longrightarrow>
      last (issued w (snd (NodesFiles E ctx opts w))) =
        PodsDelete (WithTimeout Background 30000) (Namespace (set_defaults opts)) (sandbox_name E)
          (pods_delete E (WithTimeout Background 30000) (Namespace (set_defaults opts))
             (sandbox_name E))"
  proof
    assume "creation_succeeds E ctx opts"
    with NodesFiles_trace [of E opts ctx w] show "last (issued w (snd (NodesFiles E ctx opts w))) =
        PodsDelete (WithTimeout Background 30000) (Namespace (set_defaults opts)) (sandbox_name E)
          (pods_delete E (WithTimeout Background 30000) (Namespace (set_defaults opts))
             (sandbox_name E))"
      unfolding creation_succeeds_def sandbox_name_def by auto
  qed
next
  show "fst (NodesFiles (E\<lparr>pods_delete := d\<rparr>) ctx opts w) = fst (NodesFiles E ctx opts w)"
    by (simp add: NodesFiles_def Let_def NodesFiles_body_pods_delete deferred_delete_def
          split: option.splits prod.splits)
qed

theorem NodesFiles_teardown_detached_witness:
  "creation_succeeds E_canceled ctx0 opts_get
   \<and> last (issued w0 (snd (NodesFiles E_canceled ctx0 opts_get w0))) =
       PodsDelete (WithTimeout Background 30000) ''default'' ''node-files-x7k2p''
         (Some (ErrorString ''pods is forbidden''))
   \<and> fst (NodesFiles E_canceled ctx0 opts_get w0) =
       Inl (WrapError ''pod failed to become ready: '' (ErrorString ''context canceled''))
   \<and> fst (NodesFiles (E_canceled\<lparr>pods_delete := pods_delete E0\<rparr>) ctx0 opts_get w0) =
       fst (NodesFiles E_canceled ctx0 opts_get w0)"
proof -
  have c: "creation_succeeds E_canceled ctx0 opts_get"
    by (simp add: creation_succeeds_def E_canceled_def E0_def)
  show ?thesis
    using c NodesFiles_teardown_detached [of E_canceled ctx0 opts_get w0 "pods_delete E0"]
    by (simp add: run_canceled issued_def forbidden_def)
qed

text \<open>
  C2, as the claim states it, fails: with the operation \<open>invalid\<close> on a cluster that
  answers every request, the call returns the error \<open>unknown operation: invalid\<close> only
  after it has created the sandbox pod, polled it once and deleted it.
\<close>

theorem NodesFiles_unknown_operation_creates_pod:
  "Operation opts_invalid \<notin> {''put'', ''get'', ''list''}
   \<and> fst (NodesFiles E0 ctx0 opts_invalid w0) = Inl (ErrorString ''unknown operation: invalid'')
   \<and> issued w0 (snd (NodesFiles E0 ctx0 opts_invalid w0)) =
       [PodsCreate ctx0 ''default'' (sandbox_pod (set_defaults opts_invalid) ''node-files-x7k2p''),
        PodsGet ctx0 ''default'' ''node-files-x7k2p'',
        PodsDelete (WithTimeout Background 30000) ''default'' ''node-files-x7k2p'' None]
   \<and> filter is_create (issued w0 (snd (NodesFiles E0 ctx0 opts_invalid w0))) \<noteq> []"
  by (simp add: run_invalid issued_def) (simp add: opts_invalid_def opts_get_def)

text \<open>
  C2, amended. A call of \<open>NodesFiles\<close> whose operation is none of \<open>put\<close>, \<open>get\<close>,
  \<open>list\<close> always fails and executes no command in the sandbox, but the operation is
  looked at only after the pod has been created and has become ready. When the pods
  client cannot be obtained the call fails with that error and issues nothing. Otherwise
  the create request is issued; when it is refused the call fails with that error.
  Otherwise the pod is polled and then deleted, and the error is the one of the wait,
  or, when the pod became ready, \<open>unknown operation: \<close> followed by the operation.
\<close>

theorem NodesFiles_unknown_operation:
  assumes "Operation opts \<notin> {''put'', ''get'', ''list''}"
  shows
  "let ns = Namespace (set_defaults opts);
       name = sandbox_name E;
       p = sandbox_pod (set_defaults opts) name;
       create = PodsCreate ctx ns p;
       waited = waitForPodReady E ctx ns name 120000 (emit create w);
       deleteCtx = WithTimeout Background 30000;
       del = PodsDelete deleteCtx ns name (pods_delete E deleteCtx ns name);
       res = NodesFiles E ctx opts w
   in (case pods_client E ns of
         Some err \<Rightarrow>
           fst res = Inl (WrapError ''failed to get pods client: '' err)
           \<and> issued w (snd res) = []
       | None \<Rightarrow>
           (case pods_create E ctx p of
              Some err \<Rightarrow>
                fst res = Inl (WrapError ''failed to create pod: '' err)
                \<and> issued w (snd res) = [create]
            | None \<Rightarrow>
                fst res =
                  (case fst waited of
                     Some err \<Rightarrow> Inl (WrapError ''pod failed to become ready: '' err)
                   | None \<Rightarrow> Inl (ErrorString (''unknown operation: '' @ Operation opts)))
                \<and> issued w (snd res) =
                    create # replicate (polls (snd waited) - polls w) (PodsGet ctx ns name) @ [del]))"
proof -
  let ?o = "set_defaults opts"
  let ?pn = "''node-files-'' @ rand_String E 5"
  let ?c = "PodsCreate ctx (Namespace ?o) (sandbox_pod ?o ?pn)"
  obtain r w1 where wt: "waitForPodReady E ctx (Namespace ?o) ?pn 120000 (emit ?c w) = (r, w1)"
    by (cases "waitForPodReady E ctx (Namespace ?o) ?pn 120000 (emit ?c w)")
  have tr: "trace w1 = trace w @ ?c # replicate (polls w1 - polls w) (PodsGet ctx (Namespace ?o) ?pn)"
    using waitForPodReady_frame [of "emit ?c w" E ctx "Namespace ?o" ?pn 120000] wt
    by (simp add: emit_def)
  have body: "NodesFiles_body E ctx ?o ?pn (emit ?c w) =
                (case r of Some err \<Rightarrow> (Inl (WrapError ''pod failed to become ready: '' err), w1)
                 | None \<Rightarrow> (Inl (ErrorString (''unknown operation: '' @ Operation opts)), w1))"
    using assms wt by (cases r) (simp_all add: NodesFiles_body_def)
  show ?thesis
    using wt tr body
    by (cases r)
       (auto simp: NodesFiles_def Let_def deferred_delete_def emit_def issued_def
             sandbox_name_def split: option.splits)
qed

theorem NodesFiles_unknown_operation_witness:
  "Operation opts_invalid \<notin> {''put'', ''get'', ''list''}
   \<and> fst (NodesFiles E0 ctx0 opts_invalid w0) = Inl (ErrorString ''unknown operation: invalid'')
   \<and> filter is_exec (issued w0 (snd (NodesFiles E0 ctx0 opts_invalid w0))) = []
   \<and> hd (issued w0 (snd (NodesFiles E0 ctx0 opts_invalid w0))) =
       PodsCreate ctx0 ''default'' (sandbox_pod (set_defaults opts_invalid) ''node-files-x7k2p'')"
proof -
  have op: "Operation opts_invalid \<notin> {''put'', ''get'', ''list''}"
    by (simp add: opts_invalid_def opts_get_def)
  have cl: "pods_client E0 ''default'' = None"
    "pods_create E0 ctx0 (sandbox_pod (set_defaults opts_invalid) ''node-files-x7k2p'') = None"
    by (simp_all add: E0_def)
  show ?thesis
    using op NodesFiles_unknown_operation [OF op, of E0 ctx0 w0]
    by (simp add: Let_def cl run_invalid issued_def)
qed

section \<open>Properties of the node_files handler\<close>

lemma required_arg:
  "(case as_string (args k) of (s, ok) \<Rightarrow> if \<not> ok \<or> s = [] then A else B s) =
     (if arg_string args k = [] then A else B (arg_string args k))"
  by (cases "args k" rule: as_string.cases) (simp_all add: arg_string_def)

lemma optional_arg: "fst (as_string (args k)) = arg_string args k"
  by (cases "args k" rule: as_string.cases) (simp_all add: arg_string_def)

lemma optional_flag:
  "(case as_bool (args k) of (b, ok) \<Rightarrow> if ok then b else d) = arg_bool_or args k d"
  by (cases "args k" rule: as_bool.cases) (simp_all add: arg_bool_or_def)

text \<open>The handler, read as a whole: a missing argument is reported without touching
  the cluster; otherwise \<open>NodesFiles\<close> runs on the requested options and its outcome is
  packed into the result.\<close>

lemma nodeFiles_unfold:
  "nodeFiles E ctx args w =
     (case missing_argument args of
        Some k \<Rightarrow>
          ((Some \<lparr>tcr_Content = [],
                  tcr_Error = Some (ErrorString (''missing required argument: '' @ k))\<rparr>, None), w)
      | None \<Rightarrow>
          (case NodesFiles E ctx (requested_options args) w of
             (Inl err, w') \<Rightarrow>
               ((Some \<lparr>tcr_Content = [],
                       tcr_Error = Some (ErrorString
                          (''failed to perform node file operation: '' @ err_Error err))\<rparr>,
                 None), w')
           | (Inr ret, w') \<Rightarrow> ((Some \<lparr>tcr_Content = ret, tcr_Error = None\<rparr>, None), w')))"
  unfolding nodeFiles_def
  apply (subst required_arg, subst required_arg, subst required_arg)
  apply (simp only: optional_arg optional_flag Let_def)
  apply (simp only: missing_argument_def requested_options_def arg_string_or_def
           NewToolCallResult_def)
  apply (simp split: if_splits)
  done

lemma set_defaults_requested [simp]:
  "set_defaults (requested_options args) = requested_options args"
  by (simp add: set_defaults_def requested_options_def arg_string_or_def Let_def)

lemma NodesFiles_creates:
  "filter is_create (issued w (snd (NodesFiles E ctx opts w))) =
     (if pods_client E (Namespace (set_defaults opts)) = None
      then [PodsCreate ctx (Namespace (set_defaults opts))
              (sandbox_pod (set_defaults opts) (sandbox_name E))]
      else [])"
proof (cases "creation_succeeds E ctx opts")
  case True
  from True NodesFiles_trace [of E opts ctx w]
  obtain evs where
    "issued w (snd (NodesFiles E ctx opts w)) =
       PodsCreate ctx (Namespace (set_defaults opts))
         (sandbox_pod (set_defaults opts) (sandbox_name E))
         # evs
         @ [PodsDelete (WithTimeout Background 30000) (Namespace (set_defaults opts))
              (sandbox_name E)
              (pods_delete E (WithTimeout Background 30000) (Namespace (set_defaults opts))
                 (sandbox_name E))]"
    and "list_all (\<lambda>e. \<not> is_delete e \<and> \<not> is_create e) evs"
    unfolding creation_succeeds_def sandbox_name_def by blast
  with True show ?thesis
    by (auto simp: list_all_iff filter_empty_conv creation_succeeds_def)
next
  case False
  then show ?thesis
    by (auto simp: creation_succeeds_def sandbox_name_def NodesFiles_def Let_def issued_def
          emit_def split: option.splits)
qed

lemma create_in_issued:
  "PodsCreate c ns p \<in> set evs \<Longrightarrow> PodsCreate c ns p \<in> set (filter is_create evs)"
  by simp

text \<open>
  C9. Every pod that a call of the \<open>node_files\<close> handler submits has the namespace
  given by the argument \<open>namespace\<close>, or \<open>default\<close> when that argument is absent, not
  a string or empty; its one container has the image given by \<open>image\<close>, or \<open>busybox\<close>
  in the same cases, and the privileged flag given by \<open>privileged\<close>, or true when that
  argument is absent or not a boolean; the create request goes through the client of
  that namespace. When no required argument is missing and the pods client is obtained,
  such a pod is submitted. \<open>NodesFiles\<close> itself fills in the same two defaults for an
  empty namespace and an empty image, and passes the privileged flag on as it is.
\<close>

theorem nodeFiles_defaults:
  "(\<forall>c ns p. PodsCreate c ns p \<in> set (issued w (snd (nodeFiles E ctx args w))) \<longrightarrow>
       ns = arg_string_or args ''namespace'' ''default''
       \<and> p_Namespace p = arg_string_or args ''namespace'' ''default''
       \<and> map c_Image (p_Containers p) = [arg_string_or args ''image'' ''busybox'']
       \<and> map c_Privileged (p_Containers p) = [Some (arg_bool_or args ''privileged'' True)])
   \<and> (missing_argument args = None
        \<and> pods_client E (arg_string_or args ''namespace'' ''default'') = None \<longrightarrow>
         (\<exists>p. filter is_create (issued w (snd (nodeFiles E ctx args w))) =
                [PodsCreate ctx (arg_string_or args ''namespace'' ''default'') p]))
   \<and> (\<forall>c ns p. PodsCreate c ns p \<in> set (issued w (snd (NodesFiles E ctx opts w))) \<longrightarrow>
         ns = (if Namespace opts = [] then ''default'' else Namespace opts)
         \<and> p_Namespace p = (if Namespace opts = [] then ''default'' else Namespace opts)
         \<and> map c_Image (p_Containers p) = [if Image opts = [] then ''busybox'' else Image opts]
         \<and> map c_Privileged (p_Containers p) = [Some (Privileged opts)])"
proof (intro conjI allI impI)
  fix c ns p
  assume "PodsCreate c ns p \<in> set (issued w (snd (NodesFiles E ctx opts w)))"
  then have "PodsCreate c ns p \<in> set (filter is_create (issued w (snd (NodesFiles E ctx opts w))))"
    by (rule create_in_issued)
  then have e: "ns = Namespace (set_defaults opts)"
      "p = sandbox_pod (set_defaults opts) (sandbox_name E)"
    by (auto simp: NodesFiles_creates split: if_splits)
  show "ns = (if Namespace opts = [] then ''default'' else Namespace opts)"
       "p_Namespace p = (if Namespace opts = [] then ''default'' else Namespace opts)"
       "map c_Image (p_Containers p) = [if Image opts = [] then ''busybox'' else Image opts]"
       "map c_Privileged (p_Containers p) = [Some (Privileged opts)]"
    unfolding e by (simp_all add: sandbox_pod_def set_defaults_def Let_def)
next
  fix c ns p
  assume a: "PodsCreate c ns p \<in> set (issued w (snd (nodeFiles E ctx args w)))"
  have m: "missing_argument args = None"
  proof (rule ccontr)
    assume "missing_argument args \<noteq> None"
    then obtain k where "missing_argument args = Some k" by auto
    with a show False by (simp add: nodeFiles_unfold issued_def)
  qed
  have w': "snd (nodeFiles E ctx args w) = snd (NodesFiles E ctx (requested_options args) w)"
    using m by (simp add: nodeFiles_unfold split: prod.splits sum.splits)
  from a have "PodsCreate c ns p
      \<in> set (filter is_create (issued w (snd (NodesFiles E ctx (requested_options args) w))))"
    unfolding w' by (rule create_in_issued)
  then have e: "ns = Namespace (requested_options args)"
      "p = sandbox_pod (requested_options args) (sandbox_name E)"
    by (auto simp: NodesFiles_creates split: if_splits)
  show "ns = arg_string_or args ''namespace'' ''default''"
       "p_Namespace p = arg_string_or args ''namespace'' ''default''"
       "map c_Image (p_Containers p) = [arg_string_or args ''image'' ''busybox'']"
       "map c_Privileged (p_Containers p) = [Some (arg_bool_or args ''privileged'' True)]"
    unfolding e by (simp_all add: sandbox_pod_def requested_options_def)
next
  assume a: "missing_argument args = None
             \<and> pods_client E (arg_string_or args ''namespace'' ''default'') = None"
  then have w': "snd (nodeFiles E ctx args w) = snd (NodesFiles E ctx (requested_options args) w)"
    by (simp add: nodeFiles_unfold split: prod.splits sum.splits)
  have ns: "Namespace (requested_options args) = arg_string_or args ''namespace'' ''default''"
    by (simp add: requested_options_def)
  show "\<exists>p. filter is_create (issued w (snd (nodeFiles E ctx args w))) =
               [PodsCreate ctx (arg_string_or args ''namespace'' ''default'') p]"
    unfolding w' using a by (simp add: NodesFiles_creates ns)
qed

lemma args_facts:
  "missing_argument args_list = None"
  "missing_argument args_empty = None"
  "missing_argument args_custom = None"
  "missing_argument args_get = None"
  "missing_argument args_no_node = Some ''node_name''"
  "arg_string_or args_list ''namespace'' ''default'' = ''default''"
  "arg_string_or args_list ''image'' ''busybox'' = ''busybox''"
  "arg_bool_or args_list ''privileged'' True = True"
  "arg_string_or args_empty ''namespace'' ''default'' = ''default''"
  "arg_string_or args_empty ''image'' ''busybox'' = ''busybox''"
  "arg_bool_or args_empty ''privileged'' True = True"
  "arg_string_or args_custom ''namespace'' ''default'' = ''custom-ns''"
  "arg_string_or args_custom ''image'' ''busybox'' = ''alpine''"
  "arg_bool_or args_custom ''privileged'' True = False"
  by (simp_all add: missing_argument_def arg_string_or_def arg_string_def arg_bool_or_def
        args_list_def args_empty_def args_custom_def args_get_def args_no_node_def)

lemma E0_pods_client [simp]: "pods_client E0 ns = None"
  by (simp add: E0_def)

lemma only_created:
  assumes "filter is_create evs = [PodsCreate c ns p]"
  shows "PodsCreate c ns p \<in> set evs"
proof -
  have "PodsCreate c ns p \<in> set (filter is_create evs)" using assms by simp
  then show ?thesis by simp
qed

theorem nodeFiles_defaults_witness:
  "(\<exists>p. filter is_create (issued w0 (snd (nodeFiles E0 ctx0 args_list w0))) =
          [PodsCreate ctx0 ''default'' p]
        \<and> p_Namespace p = ''default'' \<and> map c_Image (p_Containers p) = [''busybox'']
        \<and> map c_Privileged (p_Containers p) = [Some True])
   \<and> (\<exists>p. filter is_create (issued w0 (snd (nodeFiles E0 ctx0 args_empty w0))) =
          [PodsCreate ctx0 ''default'' p]
        \<and> p_Namespace p = ''default'' \<and> map c_Image (p_Containers p) = [''busybox'']
        \<and> map c_Privileged (p_Containers p) = [Some True])
   \<and> (\<exists>p. filter is_create (issued w0 (snd (nodeFiles E0 ctx0 args_custom w0))) =
          [PodsCreate ctx0 ''custom-ns'' p]
        \<and> p_Namespace p = ''custom-ns'' \<and> map c_Image (p_Containers p) = [''alpine'']
        \<and> map c_Privileged (p_Containers p) = [Some False])"
proof (intro conjI)
  note A = nodeFiles_defaults [of w0 E0 ctx0 args_list opts_get, THEN conjunct1]
  note B = nodeFiles_defaults [of w0 E0 ctx0 args_list opts_get, THEN conjunct2, THEN conjunct1]
  from B have "\<exists>p. filter is_create (issued w0 (snd (nodeFiles E0 ctx0 args_list w0))) =
                 [PodsCreate ctx0 ''default'' p]"
    by (simp add: args_facts)
  then obtain p where
    p: "filter is_create (issued w0 (snd (nodeFiles E0 ctx0 args_list w0))) =
          [PodsCreate ctx0 ''default'' p]"
    by blast
  from A only_created [OF p]
  have "p_Namespace p = arg_string_or args_list ''namespace'' ''default''
        \<and> map c_Image (p_Containers p) = [arg_string_or args_list ''image'' ''busybox'']
        \<and> map c_Privileged (p_Containers p) = [Some (arg_bool_or args_list ''privileged'' True)]"
    by blast
  then have q: "p_Namespace p = ''default'' \<and> map c_Image (p_Containers p) = [''busybox'']
        \<and> map c_Privileged (p_Containers p) = [Some True]"
    by (simp add: args_facts)
  show "\<exists>p. filter is_create (issued w0 (snd (nodeFiles E0 ctx0 args_list w0))) =
          [PodsCreate ctx0 ''default'' p]
        \<and> p_Namespace p = ''default'' \<and> map c_Image (p_Containers p) = [''busybox'']
        \<and> map c_Privileged (p_Containers p) = [Some True]"
    by (rule exI [of _ p]) (simp add: p q)
next
  note A = nodeFiles_defaults [of w0 E0 ctx0 args_empty opts_get, THEN conjunct1]
  note B = nodeFiles_defaults [of w0 E0 ctx0 args_empty opts_get, THEN conjunct2, THEN conjunct1]
  from B have "\<exists>p. filter is_create (issued w0 (snd (nodeFiles E0 ctx0 args_empty w0))) =
                 [PodsCreate ctx0 ''default'' p]"
    by (simp add: args_facts)
  then obtain p where
    p: "filter is_create (issued w0 (snd (nodeFiles E0 ctx0 args_empty w0))) =
          [PodsCreate ctx0 ''default'' p]"
    by blast
  from A only_created [OF p]
  have "p_Namespace p = arg_string_or args_empty ''namespace'' ''default''
        \<and> map c_Image (p_Containers p) = [arg_string_or args_empty ''image'' ''busybox'']
        \<and> map c_Privileged (p_Containers p) = [Some (arg_bool_or args_empty ''privileged'' True)]"
    by blast
  then have q: "p_Namespace p = ''default'' \<and> map c_Image (p_Containers p) = [''busybox'']
        \<and> map c_Privileged (p_Containers p) = [Some True]"
    by (simp add: args_facts)
  show "\<exists>p. filter is_create (issued w0 (snd (nodeFiles E0 ctx0 args_empty w0))) =
          [PodsCreate ctx0 ''default'' p]
        \<and> p_Namespace p = ''default'' \<and> map c_Image (p_Containers p) = [''busybox'']
        \<and> map c_Privileged (p_Containers p) = [Some True]"
    by (rule exI [of _ p]) (simp add: p q)
next
  note A = nodeFiles_defaults [of w0 E0 ctx0 args_custom opts_get, THEN conjunct1]
  note B = nodeFiles_defaults [of w0 E0 ctx0 args_custom opts_get, THEN conjunct2, THEN conjunct1]
  from B have "\<exists>p. filter is_create (issued w0 (snd (nodeFiles E0 ctx0 args_custom w0))) =
                 [PodsCreate ctx0 ''custom-ns'' p]"
    by (simp add: args_facts)
  then obtain p where
    p: "filter is_create (issued w0 (snd (nodeFiles E0 ctx0 args_custom w0))) =
          [PodsCreate ctx0 ''custom-ns'' p]"
    by blast
  from A only_created [OF p]
  have "p_Namespace p = arg_string_or args_custom ''namespace'' ''default''
        \<and> map c_Image (p_Containers p) = [arg_string_or args_custom ''image'' ''busybox'']
        \<and> map c_Privileged (p_Containers p) = [Some (arg_bool_or args_custom ''privileged'' True)]"
    by blast
  then have q: "p_Namespace p = ''custom-ns'' \<and> map c_Image (p_Containers p) = [''alpine'']
        \<and> map c_Privileged (p_Containers p) = [Some False]"
    by (simp add: args_facts)
  show "\<exists>p. filter is_create (issued w0 (snd (nodeFiles E0 ctx0 args_custom w0))) =
          [PodsCreate ctx0 ''custom-ns'' p]
        \<and> p_Namespace p = ''custom-ns'' \<and> map c_Image (p_Containers p) = [''alpine'']
        \<and> map c_Privileged (p_Containers p) = [Some False]"
    by (rule exI [of _ p]) (simp add: p q)
qed

text \<open>
  C10. Whatever the arguments and whatever the cluster answers, the handler returns a
  result that is not nil together with a nil error. When \<open>node_name\<close>, \<open>operation\<close> or
  \<open>source_path\<close> (looked at in this order) is absent, not a string or the empty
  string, the result holds the error \<open>missing required argument: \<close> followed by the
  name of the argument, and nothing was sent to the cluster. Otherwise \<open>NodesFiles\<close>
  ran on the requested options: when it failed, the result holds the error whose
  message is \<open>failed to perform node file operation: \<close> followed by the message of its
  error; when it succeeded, the result holds its text and no error.
\<close>

theorem nodeFiles_result:
  "snd (fst (nodeFiles E ctx args w)) = None
   \<and> fst (fst (nodeFiles E ctx args w)) =
       Some (case missing_argument args of
               Some k \<Rightarrow>
                 \<lparr>tcr_Content = [],
                  tcr_Error = Some (ErrorString (''missing required argument: '' @ k))\<rparr>
             | None \<Rightarrow>
                 (case fst (NodesFiles E ctx (requested_options args) w) of
                    Inl err \<Rightarrow>
                      \<lparr>tcr_Content = [],
                       tcr_Error = Some (ErrorString
                         (''failed to perform node file operation: '' @ err_Error err))\<rparr>
                  | Inr ret \<Rightarrow> \<lparr>tcr_Content = ret, tcr_Error = None\<rparr>))
   \<and> snd (nodeFiles E ctx args w) =
       (case missing_argument args of
          Some k \<Rightarrow> w
        | None \<Rightarrow> snd (NodesFiles E ctx (requested_options args) w))"
  by (simp add: nodeFiles_unfold split: option.splits prod.splits sum.splits)

lemma run_handler_get:
  "fst (NodesFiles E0 ctx0 (requested_options args_get) w_node) =
     Inr ''File successfully copied from node:/proc/meminfo to meminfo''"
  by (simp add: run_defs requested_options_def arg_string_def arg_string_or_def arg_bool_or_def
        args_get_def w_node_def)

lemma run_handler_list:
  "fst (NodesFiles E0 ctx0 (requested_options args_list) w0) =
     Inl (WrapError ''failed to list directory: ''
            (WrapError ''exec error: sh: unsupported script: ''
               (ErrorString ''command terminated with exit code 1'')))"
  by (simp add: run_defs requested_options_def arg_string_def arg_string_or_def arg_bool_or_def
        args_list_def)

theorem nodeFiles_result_witness:
  "fst (nodeFiles E0 ctx0 args_no_node w0) =
     (Some \<lparr>tcr_Content = [],
            tcr_Error = Some (ErrorString ''missing required argument: node_name'')\<rparr>, None)
   \<and> snd (nodeFiles E0 ctx0 args_no_node w0) = w0
   \<and> fst (nodeFiles E0 ctx0 args_list w0) =
     (Some \<lparr>tcr_Content = [],
            tcr_Error = Some (ErrorString
              ''failed to perform node file operation: failed to list directory: exec error: sh: unsupported script: command terminated with exit code 1'')\<rparr>,
      None)
   \<and> fst (nodeFiles E0 ctx0 args_get w_node) =
     (Some \<lparr>tcr_Content = ''File successfully copied from node:/proc/meminfo to meminfo'',
            tcr_Error = None\<rparr>, None)"
  using nodeFiles_result [of E0 ctx0 args_no_node w0]
        nodeFiles_result [of E0 ctx0 args_list w0]
        nodeFiles_result [of E0 ctx0 args_get w_node]
  by (simp add: args_facts run_handler_get run_handler_list prod_eq_iff)

end
